theory Spec2Isabelle
  imports Main
begin

section \<open>JavaScript values, errors and promises\<close>

text \<open>
  The composable \<^verbatim>\<open>useBioLogreen\<close> runs on a single-threaded event loop. Every
  \<^verbatim>\<open>async\<close> function is embedded as its synchronous prefix (up to the first
  \<^verbatim>\<open>await\<close>) and one continuation per \<^verbatim>\<open>await\<close>; each runs atomically.
  What the platform answers (the detector, the canvas, the camera, \<^verbatim>\<open>fetch\<close>) is an
  argument of the continuation.

  Values produced by \<^verbatim>\<open>response.json()\<close>. An object is the list of its own
  properties in insertion order. Numbers are restricted to integers (the only number of
  the API's \<^verbatim>\<open>FaceAuthResponse\<close> is \<^verbatim>\<open>user_id\<close>).
\<close>

datatype jsval =
    JNull
  | JBool bool
  | JNum int
  | JStr string
  | JArr "jsval list"
  | JObj "(string \<times> jsval) list"

text \<open>A thrown value: an \<^verbatim>\<open>Error\<close> object with its \<^verbatim>\<open>name\<close> and \<^verbatim>\<open>message\<close>.\<close>

datatype js_error = JsError (name: string) (message: string)

text \<open>\<^verbatim>\<open>new Error(msg)\<close> for a string \<^verbatim>\<open>msg\<close>.\<close>

definition new_Error :: "string \<Rightarrow> js_error" where
  "new_Error msg = JsError ''Error'' msg"

text \<open>\<^verbatim>\<open>Error.prototype.toString\<close>, which a template literal \<^verbatim>\<open>${e}\<close> calls.\<close>

definition error_toString :: "js_error \<Rightarrow> string" where
  "error_toString e =
     (if name e = [] then message e
      else if message e = [] then name e
      else name e @ '': '' @ message e)"

text \<open>Truthiness of a value, as \<^verbatim>\<open>||\<close> and \<^verbatim>\<open>!\<close> test it.\<close>

fun js_truthy :: "jsval \<Rightarrow> bool" where
  "js_truthy JNull = False"
| "js_truthy (JBool b) = b"
| "js_truthy (JNum n) = (n \<noteq> 0)"
| "js_truthy (JStr s) = (s \<noteq> [])"
| "js_truthy (JArr xs) = True"
| "js_truthy (JObj kvs) = True"

text \<open>Decimal digits of a natural number, most significant first.\<close>

fun digits :: "nat \<Rightarrow> string" where
  "digits n =
     (if n < 10 then [''0123456789'' ! n]
      else digits (n div 10) @ [''0123456789'' ! (n mod 10)])"

declare digits.simps [simp del]

definition int_toString :: "int \<Rightarrow> string" where
  "int_toString i = (if i < 0 then CHR ''-'' # digits (nat (- i)) else digits (nat i))"

text \<open>\<^verbatim>\<open>Array.prototype.join(',')\<close> on the pieces already converted.\<close>

fun join_comma :: "string list \<Rightarrow> string" where
  "join_comma [] = []"
| "join_comma [p] = p"
| "join_comma (p # q # ps) = p @ '','' @ join_comma (q # ps)"

text \<open>
  The abstract operation \<^verbatim>\<open>ToString\<close>, which \<^verbatim>\<open>new Error(x)\<close> applies to a
  message that is not a string. An array joins its elements with a comma, \<^verbatim>\<open>null\<close>
  elements giving the empty string; an object gives \<^verbatim>\<open>[object Object]\<close>.
\<close>

fun js_ToString :: "jsval \<Rightarrow> string" where
  "js_ToString JNull = ''null''"
| "js_ToString (JBool b) = (if b then ''true'' else ''false'')"
| "js_ToString (JNum n) = int_toString n"
| "js_ToString (JStr s) = s"
| "js_ToString (JArr xs) =
     join_comma (map (\<lambda>x. if x = JNull then [] else js_ToString x) xs)"
| "js_ToString (JObj kvs) = ''[object Object]''"

text \<open>
  Reading the property \<^verbatim>\<open>detail\<close> of a parsed body. On \<^verbatim>\<open>null\<close> the access
  throws a \<^verbatim>\<open>TypeError\<close> (the message is the engine's; V8's is used). On an object
  it is the property's value or \<^verbatim>\<open>undefined\<close> (\<open>None\<close>); arrays and primitives have
  no such property.
\<close>

definition null_read_message :: string where
  "null_read_message = ''Cannot read properties of null (reading 'detail')''"

fun get_detail :: "jsval \<Rightarrow> js_error + jsval option" where
  "get_detail JNull = Inl (JsError ''TypeError'' null_read_message)"
| "get_detail (JObj kvs) = Inr (map_of kvs ''detail'')"
| "get_detail v = Inr None"

text \<open>
  A promise handed to a caller is a position in the list \<open>promises\<close> of the state;
  the pair \<^verbatim>\<open>{ resolve, reject }\<close> kept in \<^verbatim>\<open>captureCompleter\<close> is that position.
\<close>

datatype settlement = Pending | Resolved jsval | Rejected js_error

text \<open>How a piece of an \<^verbatim>\<open>async\<close> function ends: it returns, throws, or suspends at an \<^verbatim>\<open>await\<close>.\<close>

datatype completion = Normal | Throw js_error | Await

section \<open>The API client\<close>

text \<open>
  What \<^verbatim>\<open>post\<close> hands to \<^verbatim>\<open>fetch\<close>. The body is \<^verbatim>\<open>JSON.stringify(payload)\<close>;
  the request keeps the payload itself, the serialisation being the platform's
  (\<open>http_method\<close> is the \<^verbatim>\<open>method\<close> of the call).
\<close>

record http_request =
  url :: string
  http_method :: string
  headers :: "(string \<times> string) list"
  body :: jsval

text \<open>
  What the platform answers to \<^verbatim>\<open>post\<close>'s two \<^verbatim>\<open>await\<close>s: \<^verbatim>\<open>fetch\<close> rejects
  (a network failure) or gives a response with its \<^verbatim>\<open>ok\<close> flag, whose
  \<^verbatim>\<open>json()\<close> then rejects (the body is not JSON) or gives the parsed value.
\<close>

datatype json_reply = JsonRejected js_error | JsonValue jsval

datatype fetch_reply = FetchRejected js_error | FetchResponse (ok: bool) json_reply

text \<open>The synchronous part of \<^verbatim>\<open>post\<close>: the call of \<^verbatim>\<open>fetch\<close>.\<close>

definition post_request :: "string \<Rightarrow> jsval \<Rightarrow> string \<Rightarrow> string \<Rightarrow> http_request" where
  "post_request endpoint payload apiKey baseURL =
     \<lparr>url = baseURL @ endpoint,
      http_method = ''POST'',
      headers = [(''Content-Type'', ''application/json''), (''X-API-KEY'', apiKey)],
      body = payload\<rparr>"

text \<open>
  The rest of \<^verbatim>\<open>post\<close>: what its promise settles with (\<open>Inl\<close> the error thrown).
  \<^verbatim>\<open>responseData.detail || '...'\<close> takes the generic message for every falsy
  \<^verbatim>\<open>detail\<close>, and \<^verbatim>\<open>new Error\<close> converts a truthy one to a string.
\<close>

definition post_result :: "fetch_reply \<Rightarrow> js_error + jsval" where
  "post_result reply =
     (case reply of
        FetchRejected e \<Rightarrow> Inl e
      | FetchResponse response_ok jr \<Rightarrow>
          (case jr of
             JsonRejected e \<Rightarrow> Inl e
           | JsonValue responseData \<Rightarrow>
               if \<not> response_ok then
                 (case get_detail responseData of
                    Inl e \<Rightarrow> Inl e
                  | Inr d \<Rightarrow>
                      (let errorMessage =
                         (case d of
                            None \<Rightarrow> ''An unknown API error occurred.''
                          | Some v \<Rightarrow>
                              if js_truthy v then js_ToString v
                              else ''An unknown API error occurred.'')
                       in Inl (new_Error errorMessage)))
               else Inr responseData))"

text \<open>\<^verbatim>\<open>customFields\<close> is a \<^verbatim>\<open>Record<string, any>\<close> or \<^verbatim>\<open>undefined\<close> (\<open>None\<close>); an object is always truthy.\<close>

definition signupWithFaceApi ::
  "string \<Rightarrow> string \<Rightarrow> string \<Rightarrow> (string \<times> jsval) list option \<Rightarrow> http_request" where
  "signupWithFaceApi apiKey baseURL imageBase64 customFields =
     (let payload = [(''image_base64'', JStr imageBase64)];
          payload = (case customFields of
                       Some cf \<Rightarrow> payload @ [(''custom_fields'', JObj cf)]
                     | None \<Rightarrow> payload)
      in post_request ''/auth/signup-face'' (JObj payload) apiKey baseURL)"

definition loginWithFaceApi :: "string \<Rightarrow> string \<Rightarrow> string \<Rightarrow> http_request" where
  "loginWithFaceApi apiKey baseURL imageBase64 =
     (let payload = [(''image_base64'', JStr imageBase64)]
      in post_request ''/auth/login-face'' (JObj payload) apiKey baseURL)"

section \<open>The composable's state\<close>

text \<open>\<^verbatim>\<open>UseBioLogreenOptions\<close>, without \<^verbatim>\<open>videoRef\<close>: the ref is mutable and lives in the state.\<close>

record options =
  apiKey :: string
  baseURL :: "string option"
  modelPath :: "string option"

definition baseURL_of :: "options \<Rightarrow> string" where
  "baseURL_of opts =
     (case baseURL opts of Some u \<Rightarrow> u | None \<Rightarrow> ''https://api.biologreen.com/v1'')"

text \<open>The video element: only its \<^verbatim>\<open>srcObject\<close> is written. A media stream is a number.\<close>

record video =
  srcObject :: "nat option"

datatype capture_mode = Login | Signup

text \<open>A send in flight: \<^verbatim>\<open>_capturePhoto\<close> suspended at its \<^verbatim>\<open>await\<close>, with its local \<^verbatim>\<open>completer\<close>.\<close>

record send_task =
  completer :: nat
  request :: http_request

text \<open>
  The reactive refs, the closure's variables, then the platform: the template ref, the
  promises handed out, the interval timers that are active (handles are positive, the
  last one given is \<open>last_timer\<close>), the streams whose tracks are live, and the
  \<^verbatim>\<open>async\<close> calls suspended at an \<^verbatim>\<open>await\<close>.
\<close>

record coordinator =
  isLoading :: bool
  isInitializing :: bool
  faceDetected :: bool
  error :: "string option"
  stream :: "nat option"
  detectionInterval :: "nat option"
  captureCompleter :: "nat option"
  captureMode :: capture_mode
  signupCustomFields :: "(string \<times> jsval) list option"
  videoRef :: "video option"
  promises :: "settlement list"
  timers :: "nat set"
  last_timer :: nat
  live_streams :: "nat set"
  loading_models :: nat
  requesting_camera :: nat
  detecting :: nat
  inflight :: "send_task list"

definition init :: coordinator where
  "init =
     \<lparr>isLoading = False, isInitializing = False, faceDetected = False, error = None,
      stream = None, detectionInterval = None, captureCompleter = None,
      captureMode = Login, signupCustomFields = None,
      videoRef = None, promises = [], timers = {}, last_timer = 0, live_streams = {},
      loading_models = 0, requesting_camera = 0, detecting = 0, inflight = []\<rparr>"

section \<open>Promises, timers and exceptions\<close>

text \<open>Settling a promise; a promise that is already settled stays as it is.\<close>

definition settle :: "nat \<Rightarrow> settlement \<Rightarrow> coordinator \<Rightarrow> coordinator" where
  "settle p v s =
     (if p < length (promises s) \<and> promises s ! p = Pending
      then s\<lparr>promises := (promises s)[p := v]\<rparr>
      else s)"

definition resolve :: "nat \<Rightarrow> jsval \<Rightarrow> coordinator \<Rightarrow> coordinator" where
  "resolve p v s = settle p (Resolved v) s"

definition reject :: "nat \<Rightarrow> js_error \<Rightarrow> coordinator \<Rightarrow> coordinator" where
  "reject p e s = settle p (Rejected e) s"

text \<open>\<^verbatim>\<open>new Promise(executor)\<close>: a fresh pending promise, at the end of the list.\<close>

definition new_promise :: "coordinator \<Rightarrow> nat \<times> coordinator" where
  "new_promise s = (length (promises s), s\<lparr>promises := promises s @ [Pending]\<rparr>)"

text \<open>\<^verbatim>\<open>window.setInterval\<close> gives a positive handle that was never given before.\<close>

definition window_setInterval :: "coordinator \<Rightarrow> nat \<times> coordinator" where
  "window_setInterval s =
     (let h = Suc (last_timer s)
      in (h, s\<lparr>timers := insert h (timers s), last_timer := h\<rparr>))"

definition clearInterval :: "nat \<Rightarrow> coordinator \<Rightarrow> coordinator" where
  "clearInterval h s = s\<lparr>timers := timers s - {h}\<rparr>"

text \<open>
  \<^verbatim>\<open>try { body } catch (e) { handler } finally { fin }\<close>, resumed at some point of
  the body. A body that suspends at an \<^verbatim>\<open>await\<close> runs neither the handler nor the
  final block now. An exception of the final block replaces the completion before it.
\<close>

definition try_catch_finally ::
  "(coordinator \<Rightarrow> completion \<times> coordinator) \<Rightarrow>
   (js_error \<Rightarrow> coordinator \<Rightarrow> completion \<times> coordinator) \<Rightarrow>
   (coordinator \<Rightarrow> completion \<times> coordinator) \<Rightarrow>
   coordinator \<Rightarrow> completion \<times> coordinator" where
  "try_catch_finally body_part handler fin s =
     (case body_part s of
        (Await, s1) \<Rightarrow> (Await, s1)
      | (c1, s1) \<Rightarrow>
          (let (c2, s2) = (case c1 of Throw e \<Rightarrow> handler e s1 | _ \<Rightarrow> (c1, s1));
               (c3, s3) = fin s2
           in (case c3 of Normal \<Rightarrow> (c2, s3) | _ \<Rightarrow> (c3, s3))))"

section \<open>The detection loop and the capture\<close>

text \<open>\<^verbatim>\<open>str.split(',')\<close>: the pieces between the commas, at least one.\<close>

fun split_comma :: "string \<Rightarrow> string list" where
  "split_comma [] = [[]]"
| "split_comma (c # cs) =
     (if c = CHR '','' then [] # split_comma cs
      else (case split_comma cs of
              p # ps \<Rightarrow> (c # p) # ps
            | [] \<Rightarrow> [[c]]))"

text \<open>\<^verbatim>\<open>canvas.toDataURL('image/jpeg').split(',')[1]\<close>: \<open>None\<close> is \<^verbatim>\<open>undefined\<close>.\<close>

definition imageBase64_of :: "string \<Rightarrow> string option" where
  "imageBase64_of dataURL =
     (case split_comma dataURL of
        p # q # ps \<Rightarrow> Some q
      | _ \<Rightarrow> None)"

text \<open>
  The \<^verbatim>\<open>try\<close> block of \<^verbatim>\<open>_capturePhoto\<close> up to its \<^verbatim>\<open>await\<close>. The argument
  \<open>canvas\<close> is what drawing the frame and \<^verbatim>\<open>toDataURL\<close> give: the data URL, or
  \<open>Inl\<close> the exception one of the canvas calls throws. The API function is called,
  so the request is issued, before the suspension.
\<close>

definition capture_try ::
  "options \<Rightarrow> nat \<Rightarrow> js_error + string \<Rightarrow> coordinator \<Rightarrow> completion \<times> coordinator" where
  "capture_try opts cmpl canvas s =
     (case canvas of
        Inl e \<Rightarrow> (Throw e, s)
      | Inr dataURL \<Rightarrow>
          (case imageBase64_of dataURL of
             None \<Rightarrow> (Throw (new_Error ''Failed to capture image from video stream.''), s)
           | Some imageBase64 \<Rightarrow>
               if imageBase64 = [] then
                 (Throw (new_Error ''Failed to capture image from video stream.''), s)
               else
                 (let req =
                    (if captureMode s = Login
                     then loginWithFaceApi (apiKey opts) (baseURL_of opts) imageBase64
                     else signupWithFaceApi (apiKey opts) (baseURL_of opts) imageBase64
                            (signupCustomFields s))
                  in (Await, s\<lparr>inflight := inflight s @ [\<lparr>completer = cmpl, request = req\<rparr>]\<rparr>))))"

text \<open>The \<^verbatim>\<open>try\<close> block after the \<^verbatim>\<open>await\<close>: the API call has settled.\<close>

definition capture_try_resume ::
  "nat \<Rightarrow> fetch_reply \<Rightarrow> coordinator \<Rightarrow> completion \<times> coordinator" where
  "capture_try_resume cmpl reply s =
     (case post_result reply of
        Inl e \<Rightarrow> (Throw e, s)
      | Inr response \<Rightarrow> (Normal, resolve cmpl response s))"

definition capture_catch :: "nat \<Rightarrow> js_error \<Rightarrow> coordinator \<Rightarrow> completion \<times> coordinator" where
  "capture_catch cmpl e s =
     (let s1 = s\<lparr>error := Some (if message e = [] then
                                   ''An unexpected error occurred during capture.''
                                 else message e)\<rparr>
      in (Normal, reject cmpl e s1))"

definition capture_finally :: "coordinator \<Rightarrow> completion \<times> coordinator" where
  "capture_finally s = (Normal, s\<lparr>isLoading := False\<rparr>)"

text \<open>\<^verbatim>\<open>_capturePhoto\<close>, from its call to its \<^verbatim>\<open>await\<close> (or to its end).\<close>

definition capturePhoto ::
  "options \<Rightarrow> js_error + string \<Rightarrow> coordinator \<Rightarrow> completion \<times> coordinator" where
  "capturePhoto opts canvas s =
     (case (videoRef s, captureCompleter s) of
        (Some v, Some cmpl) \<Rightarrow>
          (let s1 = s\<lparr>isLoading := True\<rparr>;
               s2 = s1\<lparr>captureCompleter := None\<rparr>
           in try_catch_finally (capture_try opts cmpl canvas) (capture_catch cmpl)
                capture_finally s2)
      | _ \<Rightarrow> (Normal, s))"

text \<open>
  \<^verbatim>\<open>_capturePhoto\<close> resumed when the API call of the \<open>i\<close>-th send in flight has
  settled. There is nothing to resume when \<open>i\<close> is out of range.
\<close>

definition capturePhoto_resume :: "nat \<Rightarrow> fetch_reply \<Rightarrow> coordinator \<Rightarrow> completion \<times> coordinator" where
  "capturePhoto_resume i reply s =
     (if i < length (inflight s) then
        (let cmpl = completer (inflight s ! i);
             s1 = s\<lparr>inflight := take i (inflight s) @ drop (Suc i) (inflight s)\<rparr>
         in try_catch_finally (capture_try_resume cmpl reply) (capture_catch cmpl)
              capture_finally s1)
      else (Normal, s))"

text \<open>\<^verbatim>\<open>runDetection\<close> up to its \<^verbatim>\<open>await\<close>: the detector is asked unless the ref is null.\<close>

definition runDetection :: "coordinator \<Rightarrow> completion \<times> coordinator" where
  "runDetection s =
     (case videoRef s of
        None \<Rightarrow> (Normal, s)
      | Some v \<Rightarrow> (Await, s\<lparr>detecting := Suc (detecting s)\<rparr>))"

text \<open>
  \<^verbatim>\<open>runDetection\<close> resumed with the detector's answer: \<open>Inr n\<close> for \<open>n\<close>
  detections, \<open>Inl e\<close> when \<^verbatim>\<open>detectAllFaces\<close> rejects. The promise of
  \<^verbatim>\<open>_capturePhoto()\<close> is dropped.
\<close>

definition runDetection_resume ::
  "options \<Rightarrow> js_error + nat \<Rightarrow> js_error + string \<Rightarrow> coordinator \<Rightarrow> completion \<times> coordinator" where
  "runDetection_resume opts detections canvas s =
     (case detections of
        Inl e \<Rightarrow> (Throw e, s)
      | Inr n \<Rightarrow>
          (let faceIsPresent = (n > 0);
               s1 = s\<lparr>faceDetected := faceIsPresent\<rparr>
           in if captureCompleter s1 \<noteq> None \<and> faceIsPresent \<and> \<not> isLoading s1
              then (Normal, snd (capturePhoto opts canvas s1))
              else (Normal, s1)))"

section \<open>The public functions\<close>

text \<open>
  \<^verbatim>\<open>loadModels\<close>, as a function of what \<^verbatim>\<open>loadFromUri\<close> settles with
  (\<open>None\<close>: loaded): the exception it throws, if any.
\<close>

definition loadModels :: "js_error option \<Rightarrow> js_error option" where
  "loadModels reply =
     (case reply of
        None \<Rightarrow> None
      | Some e \<Rightarrow>
          Some (new_Error
            (''Failed to load face detection models. Please check the modelPath. Error: ''
             @ error_toString e)))"

definition null_write_message :: string where
  "null_write_message = ''Cannot set properties of null (setting 'srcObject')''"

text \<open>The \<^verbatim>\<open>try\<close> block of \<^verbatim>\<open>start\<close>, in its three parts.\<close>

definition start_try :: "coordinator \<Rightarrow> completion \<times> coordinator" where
  "start_try s = (Await, s\<lparr>loading_models := Suc (loading_models s)\<rparr>)"

definition start_try_models :: "js_error option \<Rightarrow> coordinator \<Rightarrow> completion \<times> coordinator" where
  "start_try_models reply s =
     (case loadModels reply of
        Some e \<Rightarrow> (Throw e, s)
      | None \<Rightarrow> (Await, s\<lparr>requesting_camera := Suc (requesting_camera s)\<rparr>))"

definition start_try_camera :: "js_error + nat \<Rightarrow> coordinator \<Rightarrow> completion \<times> coordinator" where
  "start_try_camera reply s =
     (case reply of
        Inl e \<Rightarrow> (Throw e, s)
      | Inr st \<Rightarrow>
          (let s1 = s\<lparr>stream := Some st\<rparr>
           in case videoRef s1 of
                None \<Rightarrow> (Throw (JsError ''TypeError'' null_write_message), s1)
              | Some v \<Rightarrow>
                  (let s2 = s1\<lparr>videoRef := Some (v\<lparr>srcObject := Some st\<rparr>)\<rparr>;
                       (h, s3) = window_setInterval s2
                   in (Normal, s3\<lparr>detectionInterval := Some h\<rparr>))))"

definition start_catch :: "js_error \<Rightarrow> coordinator \<Rightarrow> completion \<times> coordinator" where
  "start_catch e s = (Normal, s\<lparr>error := Some (''Failed to start camera: '' @ message e)\<rparr>)"

definition start_finally :: "coordinator \<Rightarrow> completion \<times> coordinator" where
  "start_finally s = (Normal, s\<lparr>isInitializing := False\<rparr>)"

text \<open>\<^verbatim>\<open>start\<close> from its call to its first \<^verbatim>\<open>await\<close> (or its early return).\<close>

definition start :: "coordinator \<Rightarrow> completion \<times> coordinator" where
  "start s =
     (case videoRef s of
        None \<Rightarrow> (Normal, s\<lparr>error := Some ''Video element reference is not available.''\<rparr>)
      | Some v \<Rightarrow>
          (let s1 = s\<lparr>isInitializing := True\<rparr>;
               s2 = s1\<lparr>error := None\<rparr>
           in try_catch_finally start_try start_catch start_finally s2))"

text \<open>\<^verbatim>\<open>start\<close> resumed when \<^verbatim>\<open>loadModels()\<close> has settled.\<close>

definition start_resume_models :: "js_error option \<Rightarrow> coordinator \<Rightarrow> completion \<times> coordinator" where
  "start_resume_models reply s =
     try_catch_finally (start_try_models reply) start_catch start_finally s"

text \<open>\<^verbatim>\<open>start\<close> resumed when \<^verbatim>\<open>getUserMedia\<close> has settled (\<open>Inr st\<close>: the stream).\<close>

definition start_resume_camera :: "js_error + nat \<Rightarrow> coordinator \<Rightarrow> completion \<times> coordinator" where
  "start_resume_camera reply s =
     try_catch_finally (start_try_camera reply) start_catch start_finally s"

text \<open>
  \<^verbatim>\<open>stop\<close>. \<^verbatim>\<open>if (detectionInterval)\<close> tests a number or null: zero is falsy.
  Stopping the tracks of a stream takes it out of the live ones.
\<close>

definition stop :: "coordinator \<Rightarrow> coordinator" where
  "stop s =
     (let s1 = (case detectionInterval s of
                  Some h \<Rightarrow>
                    if h \<noteq> 0 then (clearInterval h s)\<lparr>detectionInterval := None\<rparr> else s
                | None \<Rightarrow> s);
          s2 = (case stream s1 of
                  Some st \<Rightarrow> s1\<lparr>live_streams := live_streams s1 - {st}, stream := None\<rparr>
                | None \<Rightarrow> s1);
          s3 = (case videoRef s2 of
                  Some v \<Rightarrow> s2\<lparr>videoRef := Some (v\<lparr>srcObject := None\<rparr>)\<rparr>
                | None \<Rightarrow> s2)
      in s3\<lparr>faceDetected := False\<rparr>)"

text \<open>\<^verbatim>\<open>loginWithFace\<close>: the promise returned, and the state.\<close>

definition loginWithFace :: "coordinator \<Rightarrow> nat \<times> coordinator" where
  "loginWithFace s =
     (let s1 = s\<lparr>captureMode := Login\<rparr>;
          s2 = s1\<lparr>signupCustomFields := None\<rparr>;
          (p, s3) = new_promise s2
      in (p, s3\<lparr>captureCompleter := Some p\<rparr>))"

text \<open>The argument of \<^verbatim>\<open>signupWithFace\<close>, when it is given.\<close>

record signup_opts =
  customFields :: "(string \<times> jsval) list option"

definition signupWithFace :: "signup_opts option \<Rightarrow> coordinator \<Rightarrow> nat \<times> coordinator" where
  "signupWithFace opts s =
     (let s1 = s\<lparr>captureMode := Signup\<rparr>;
          s2 = s1\<lparr>signupCustomFields :=
                    (case opts of None \<Rightarrow> None | Some opt \<Rightarrow> customFields opt)\<rparr>;
          (p, s3) = new_promise s2
      in (p, s3\<lparr>captureCompleter := Some p\<rparr>))"

section \<open>The event loop\<close>

text \<open>
  What can happen to a coordinator: a call of one of its four functions (the unmount
  hook is a call of \<^verbatim>\<open>stop\<close>), the framework setting the template ref, an interval
  timer firing, and the settling of a promise one of its \<^verbatim>\<open>async\<close> functions awaits.
\<close>

datatype event =
    StartCalled
  | StopCalled
  | LoginCalled
  | SignupCalled "signup_opts option"
  | VideoRefSet "video option"
  | ModelsSettled "js_error option"
  | CameraSettled "js_error + nat"
  | TimerFired nat
  | DetectionSettled "js_error + nat" "js_error + string"
  | FetchSettled nat fetch_reply

text \<open>
  One turn of the event loop. A settling that no suspended call waits for, and a timer
  that is not active, do nothing. A stream that \<^verbatim>\<open>getUserMedia\<close> gives is live.
\<close>

fun step :: "options \<Rightarrow> event \<Rightarrow> coordinator \<Rightarrow> coordinator" where
  "step opts StartCalled s = snd (start s)"
| "step opts StopCalled s = stop s"
| "step opts LoginCalled s = snd (loginWithFace s)"
| "step opts (SignupCalled so) s = snd (signupWithFace so s)"
| "step opts (VideoRefSet v) s = s\<lparr>videoRef := v\<rparr>"
| "step opts (ModelsSettled reply) s =
     (if loading_models s = 0 then s
      else snd (start_resume_models reply (s\<lparr>loading_models := loading_models s - 1\<rparr>)))"
| "step opts (CameraSettled reply) s =
     (if requesting_camera s = 0 then s
      else
        (let s1 = s\<lparr>requesting_camera := requesting_camera s - 1\<rparr>;
             s2 = (case reply of
                     Inr st \<Rightarrow> s1\<lparr>live_streams := insert st (live_streams s1)\<rparr>
                   | Inl e \<Rightarrow> s1)
         in snd (start_resume_camera reply s2)))"
| "step opts (TimerFired h) s = (if h \<in> timers s then snd (runDetection s) else s)"
| "step opts (DetectionSettled detections canvas) s =
     (if detecting s = 0 then s
      else snd (runDetection_resume opts detections canvas (s\<lparr>detecting := detecting s - 1\<rparr>)))"
| "step opts (FetchSettled i reply) s = snd (capturePhoto_resume i reply s)"

definition run :: "options \<Rightarrow> event list \<Rightarrow> coordinator \<Rightarrow> coordinator" where
  "run opts es s = foldl (\<lambda>s' e. step opts e s') s es"

section \<open>Invariants of the event loop\<close>

text \<open>No send is in flight, or exactly one is and the busy flag is set.\<close>

definition one_send :: "coordinator \<Rightarrow> bool" where
  "one_send s = (inflight s = [] \<or> (length (inflight s) = 1 \<and> isLoading s))"

text \<open>
  A promise that is pending and that neither the armed request nor a send in flight
  holds: nothing can settle it any more.
\<close>

definition abandoned :: "nat \<Rightarrow> coordinator \<Rightarrow> bool" where
  "abandoned q s =
     (q < length (promises s) \<and> promises s ! q = Pending \<and> captureCompleter s \<noteq> Some q \<and>
      q \<notin> completer ` set (inflight s))"

text \<open>
  The promises held by the sends in flight exist, and the armed request holds a pending
  promise that no send in flight holds.
\<close>

definition armed_fresh :: "coordinator \<Rightarrow> bool" where
  "armed_fresh s =
     ((\<forall>t \<in> set (inflight s). completer t < length (promises s)) \<and>
      (\<forall>p. captureCompleter s = Some p \<longrightarrow>
           p < length (promises s) \<and> promises s ! p = Pending \<and>
           p \<notin> completer ` set (inflight s)))"

section \<open>Concrete runs\<close>

text \<open>
  A configuration, a frame that encodes to a non-empty image, and two runs: the camera
  started on a mounted video element, then a login armed and fired by a detection.
\<close>

abbreviation demo_options :: options where
  "demo_options \<equiv> \<lparr>apiKey = ''key'', baseURL = None, modelPath = None\<rparr>"

abbreviation demo_frame :: "js_error + string" where
  "demo_frame \<equiv> Inr ''data:image/jpeg;base64,AAAA''"

abbreviation demo_started :: "event list" where
  "demo_started \<equiv>
     [VideoRefSet (Some \<lparr>srcObject = None\<rparr>), StartCalled, ModelsSettled None,
      CameraSettled (Inr 7)]"

abbreviation demo_sending :: "event list" where
  "demo_sending \<equiv>
     demo_started @ [LoginCalled, TimerFired 1, DetectionSettled (Inr 1) demo_frame]"

section \<open>Basic facts\<close>

lemmas start_defs = start_def start_try_def start_resume_models_def start_try_models_def
   start_resume_camera_def start_try_camera_def window_setInterval_def start_finally_def start_catch_def

lemmas capture_defs = capturePhoto_def capture_try_def capture_catch_def capture_finally_def
   capturePhoto_resume_def capture_try_resume_def reject_def resolve_def settle_def

lemmas arm_defs = loginWithFace_def signupWithFace_def new_promise_def

lemma run_Nil [simp]: "run opts [] s = s" by (simp add: run_def)

lemma run_snoc [simp]: "run opts (es @ [e]) s = step opts e (run opts es s)" by (simp add: run_def)

text \<open>What the lifecycle functions leave alone.\<close>

lemma start_frame [simp]:
  "inflight (snd (start s)) = inflight s"
  "isLoading (snd (start s)) = isLoading s"
  "captureCompleter (snd (start s)) = captureCompleter s"
  "promises (snd (start s)) = promises s"
  by (simp_all add: start_defs try_catch_finally_def split: option.splits)

lemma start_resume_models_frame [simp]:
  "inflight (snd (start_resume_models r s)) = inflight s"
  "isLoading (snd (start_resume_models r s)) = isLoading s"
  "captureCompleter (snd (start_resume_models r s)) = captureCompleter s"
  "promises (snd (start_resume_models r s)) = promises s"
  by (simp_all add: start_defs try_catch_finally_def split: option.splits)

lemma start_resume_camera_frame [simp]:
  "inflight (snd (start_resume_camera r s)) = inflight s"
  "isLoading (snd (start_resume_camera r s)) = isLoading s"
  "captureCompleter (snd (start_resume_camera r s)) = captureCompleter s"
  "promises (snd (start_resume_camera r s)) = promises s"
  by (simp_all add: start_defs try_catch_finally_def Let_def split: option.splits sum.splits)

lemma stop_frame [simp]:
  "inflight (stop s) = inflight s"
  "isLoading (stop s) = isLoading s"
  "captureCompleter (stop s) = captureCompleter s"
  "promises (stop s) = promises s"
  by (simp_all add: stop_def clearInterval_def Let_def split: option.splits)

lemma runDetection_frame [simp]:
  "inflight (snd (runDetection s)) = inflight s"
  "isLoading (snd (runDetection s)) = isLoading s"
  "captureCompleter (snd (runDetection s)) = captureCompleter s"
  "promises (snd (runDetection s)) = promises s"
  by (simp_all add: runDetection_def split: option.splits)

lemma arm_frame [simp]:
  "inflight (snd (loginWithFace s)) = inflight s"
  "isLoading (snd (loginWithFace s)) = isLoading s"
  "inflight (snd (signupWithFace so s)) = inflight s"
  "isLoading (snd (signupWithFace so s)) = isLoading s"
  by (simp_all add: arm_defs Let_def)

lemma one_send_frame:
  "one_send s \<Longrightarrow> inflight s' = inflight s \<Longrightarrow> isLoading s' = isLoading s \<Longrightarrow> one_send s'"
  by (simp add: one_send_def)

lemma one_send_capture: "inflight s = [] \<Longrightarrow> one_send (snd (capturePhoto opts canvas s))"
  by (auto simp: one_send_def capture_defs try_catch_finally_def Let_def split: option.splits sum.splits)

lemma capture_busy: "isLoading s \<Longrightarrow> snd (runDetection_resume opts d canvas s) = (case d of Inl e \<Rightarrow> s | Inr n \<Rightarrow> s\<lparr>faceDetected := (n > 0)\<rparr>)"
  by (simp add: runDetection_resume_def Let_def split: sum.splits)

lemma one_send_upd [simp]:
  "one_send (s\<lparr>detecting := n\<rparr>) = one_send s"
  "one_send (s\<lparr>faceDetected := b\<rparr>) = one_send s"
  by (simp_all add: one_send_def)

lemma one_send_detect:
  assumes "one_send s"
  shows "one_send (snd (runDetection_resume opts d canvas s))"
proof (cases "inflight s = []")
  case True
  have "one_send (snd (capturePhoto opts canvas s'))" if "inflight s' = []" for s'
    using that by (rule one_send_capture)
  then show ?thesis using True assms
    by (simp add: runDetection_resume_def Let_def split: sum.splits)
next
  case False
  with assms have "isLoading s" by (simp add: one_send_def)
  then show ?thesis using assms
    by (simp add: capture_busy split: sum.splits)
qed

lemma one_send_resume: "one_send s \<Longrightarrow> one_send (snd (capturePhoto_resume i r s))"
  by (auto simp: one_send_def capture_defs try_catch_finally_def Let_def split: option.splits sum.splits)

lemma one_send_step: "one_send s \<Longrightarrow> one_send (step opts e s)"
proof (cases e)
  case (CameraSettled r)
  assume "one_send s"
  then show ?thesis using CameraSettled
    by (auto simp: Let_def intro: one_send_frame split: sum.splits)
next
  case (DetectionSettled d c)
  assume "one_send s"
  then show ?thesis using DetectionSettled by (simp add: one_send_detect)
next
  case (FetchSettled i r)
  assume "one_send s"
  then show ?thesis using FetchSettled by (simp add: one_send_resume)
qed (auto intro: one_send_frame)

lemma one_send_run: "one_send s \<Longrightarrow> one_send (run opts es s)"
  by (induction es rule: rev_induct) (simp_all add: one_send_step)

lemma one_send_init: "one_send init" by (simp add: one_send_def init_def)

lemma abandoned_frame:
  "abandoned q s \<Longrightarrow> inflight s' = inflight s \<Longrightarrow> captureCompleter s' = captureCompleter s \<Longrightarrow>
   promises s' = promises s \<Longrightarrow> abandoned q s'"
  by (simp add: abandoned_def)

lemma armed_fresh_frame:
  "armed_fresh s \<Longrightarrow> inflight s' = inflight s \<Longrightarrow> captureCompleter s' = captureCompleter s \<Longrightarrow>
   promises s' = promises s \<Longrightarrow> armed_fresh s'"
  by (simp add: armed_fresh_def)

lemma abandoned_upd [simp]:
  "abandoned q (s\<lparr>detecting := n\<rparr>) = abandoned q s"
  "abandoned q (s\<lparr>faceDetected := b\<rparr>) = abandoned q s"
  "abandoned q (s\<lparr>videoRef := v\<rparr>) = abandoned q s"
  by (simp_all add: abandoned_def)

lemma armed_fresh_upd [simp]:
  "armed_fresh (s\<lparr>detecting := n\<rparr>) = armed_fresh s"
  "armed_fresh (s\<lparr>faceDetected := b\<rparr>) = armed_fresh s"
  "armed_fresh (s\<lparr>videoRef := v\<rparr>) = armed_fresh s"
  by (simp_all add: armed_fresh_def)

lemma in_set_remove_nth: "x \<in> set (take i xs @ drop (Suc i) xs) \<Longrightarrow> x \<in> set xs"
  by (auto dest: in_set_takeD in_set_dropD)

lemma nth_completer_neq:
  "q \<notin> completer ` set ts \<Longrightarrow> i < length ts \<Longrightarrow> completer (ts ! i) \<noteq> q"
  by (auto simp: image_iff dest: nth_mem)

lemma abandoned_arm:
  "abandoned q s \<Longrightarrow> abandoned q (snd (loginWithFace s))"
  "abandoned q s \<Longrightarrow> abandoned q (snd (signupWithFace so s))"
  by (auto simp: abandoned_def arm_defs Let_def nth_append)

lemma abandoned_capture: "abandoned q s \<Longrightarrow> abandoned q (snd (capturePhoto opts canvas s))"
  by (auto simp: abandoned_def capture_defs try_catch_finally_def Let_def
           split: option.splits sum.splits)

lemma abandoned_detect: "abandoned q s \<Longrightarrow> abandoned q (snd (runDetection_resume opts d canvas s))"
  by (simp add: runDetection_resume_def Let_def abandoned_capture split: sum.splits)

lemma abandoned_resume: "abandoned q s \<Longrightarrow> abandoned q (snd (capturePhoto_resume i r s))"
  by (auto simp: abandoned_def capture_defs try_catch_finally_def Let_def nth_list_update
           dest: in_set_takeD in_set_dropD nth_completer_neq split: option.splits sum.splits)

lemma abandoned_step: "abandoned q s \<Longrightarrow> abandoned q (step opts e s)"
proof (cases e)
  case (CameraSettled r)
  assume "abandoned q s"
  then show ?thesis using CameraSettled
    by (auto simp: Let_def intro: abandoned_frame split: sum.splits)
qed (auto intro: abandoned_frame simp: abandoned_arm abandoned_detect abandoned_resume)

lemma abandoned_run: "abandoned q s \<Longrightarrow> abandoned q (run opts es s)"
  by (induction es rule: rev_induct) (simp_all add: abandoned_step)

lemma armed_fresh_arm:
  "armed_fresh s \<Longrightarrow> armed_fresh (snd (loginWithFace s))"
  "armed_fresh s \<Longrightarrow> armed_fresh (snd (signupWithFace so s))"
  by (auto simp: armed_fresh_def arm_defs Let_def nth_append less_Suc_eq split: option.splits)

lemma armed_fresh_capture: "armed_fresh s \<Longrightarrow> armed_fresh (snd (capturePhoto opts canvas s))"
  by (auto simp: armed_fresh_def capture_defs try_catch_finally_def Let_def
           split: option.splits sum.splits)

lemma armed_fresh_detect: "armed_fresh s \<Longrightarrow> armed_fresh (snd (runDetection_resume opts d canvas s))"
  by (simp add: runDetection_resume_def Let_def armed_fresh_capture split: sum.splits)

lemma armed_fresh_resume: "armed_fresh s \<Longrightarrow> armed_fresh (snd (capturePhoto_resume i r s))"
  by (auto simp: armed_fresh_def capture_defs try_catch_finally_def Let_def nth_list_update
           dest: in_set_takeD in_set_dropD nth_completer_neq split: option.splits sum.splits)

lemma armed_fresh_step: "armed_fresh s \<Longrightarrow> armed_fresh (step opts e s)"
proof (cases e)
  case (CameraSettled r)
  assume "armed_fresh s"
  then show ?thesis using CameraSettled
    by (auto simp: Let_def intro: armed_fresh_frame split: sum.splits)
qed (auto intro: armed_fresh_frame simp: armed_fresh_arm armed_fresh_detect armed_fresh_resume)

lemma armed_fresh_run: "armed_fresh s \<Longrightarrow> armed_fresh (run opts es s)"
  by (induction es rule: rev_induct) (simp_all add: armed_fresh_step)

lemma armed_fresh_init: "armed_fresh init"
  by (simp add: armed_fresh_def init_def)

text \<open>What a capture that encodes its frame does: the request is sent, the call suspends.\<close>

lemma capture_sends:
  assumes "videoRef s = Some v" and "captureCompleter s = Some p"
    and "imageBase64_of dataURL = Some img" and "img \<noteq> []"
  shows "capturePhoto opts (Inr dataURL) s =
    (Await, s\<lparr>isLoading := True, captureCompleter := None,
       inflight := inflight s @
         [\<lparr>completer = p,
           request = (if captureMode s = Login
                      then loginWithFaceApi (apiKey opts) (baseURL_of opts) img
                      else signupWithFaceApi (apiKey opts) (baseURL_of opts) img
                             (signupCustomFields s))\<rparr>]\<rparr>)"
  using assms by (simp add: capture_defs try_catch_finally_def Let_def)

lemma detect_fires:
  assumes "videoRef s = Some v" and "captureCompleter s = Some p" and "\<not> isLoading s"
    and "0 < n" and "imageBase64_of dataURL = Some img" and "img \<noteq> []"
  shows "snd (runDetection_resume opts (Inr n) (Inr dataURL) s) =
    s\<lparr>faceDetected := True, isLoading := True, captureCompleter := None,
       inflight := inflight s @
         [\<lparr>completer = p,
           request = (if captureMode s = Login
                      then loginWithFaceApi (apiKey opts) (baseURL_of opts) img
                      else signupWithFaceApi (apiKey opts) (baseURL_of opts) img
                             (signupCustomFields s))\<rparr>]\<rparr>"
  using assms
  by (simp add: runDetection_resume_def Let_def capture_sends [where v = v and p = p and img = img])

text \<open>The fields an arming call sets.\<close>

lemma loginWithFace_effect:
  "loginWithFace s =
     (length (promises s),
      s\<lparr>captureMode := Login, signupCustomFields := None,
        promises := promises s @ [Pending], captureCompleter := Some (length (promises s))\<rparr>)"
  by (simp add: arm_defs Let_def)

lemma signupWithFace_effect:
  "signupWithFace so s =
     (length (promises s),
      s\<lparr>captureMode := Signup,
        signupCustomFields := (case so of None \<Rightarrow> None | Some opt \<Rightarrow> customFields opt),
        promises := promises s @ [Pending], captureCompleter := Some (length (promises s))\<rparr>)"
  by (simp add: arm_defs Let_def)

text \<open>What the continuation of a send does with a successful reply.\<close>

lemma resume_resolves:
  assumes "i < length (inflight s)" and "completer (inflight s ! i) = p"
    and "p < length (promises s)" and "promises s ! p = Pending"
  shows "snd (capturePhoto_resume i (FetchResponse True (JsonValue response)) s) =
    s\<lparr>inflight := take i (inflight s) @ drop (Suc i) (inflight s),
       promises := (promises s)[p := Resolved response], isLoading := False\<rparr>"
  using assms
  by (simp add: capture_defs try_catch_finally_def Let_def post_result_def)

text \<open>A capture leaves the detection state, the video element and the pending calls alone.\<close>

lemma capturePhoto_frame [simp]:
  "faceDetected (snd (capturePhoto opts canvas s)) = faceDetected s"
  "videoRef (snd (capturePhoto opts canvas s)) = videoRef s"
  by (auto simp: capture_defs try_catch_finally_def Let_def split: option.splits sum.splits)

lemma capturePhoto_resume_frame [simp]:
  "faceDetected (snd (capturePhoto_resume i reply s)) = faceDetected s"
  "videoRef (snd (capturePhoto_resume i reply s)) = videoRef s"
  by (auto simp: capture_defs try_catch_finally_def Let_def split: option.splits sum.splits)

text \<open>Past its guard, a capture always disarms the request.\<close>

lemma capture_disarms:
  "videoRef s \<noteq> None \<Longrightarrow> captureCompleter (snd (capturePhoto opts canvas s)) = None"
  by (auto simp: capture_defs try_catch_finally_def Let_def split: option.splits sum.splits)

text \<open>A capture that ends, and every continuation of a send, clears the busy flag.\<close>

lemma capture_end_idle:
  "videoRef s \<noteq> None \<Longrightarrow> captureCompleter s \<noteq> None \<Longrightarrow>
   fst (capturePhoto opts canvas s) \<noteq> Await \<Longrightarrow>
   \<not> isLoading (snd (capturePhoto opts canvas s))"
  by (auto simp: capture_defs try_catch_finally_def Let_def split: option.splits sum.splits)

lemma resume_idle:
  "i < length (inflight s) \<Longrightarrow> \<not> isLoading (snd (capturePhoto_resume i reply s))"
  by (auto simp: capture_defs try_catch_finally_def Let_def split: option.splits sum.splits)

text \<open>What \<^verbatim>\<open>post\<close> throws for an error response whose body is an object.\<close>

lemma post_result_error_object:
  "post_result (FetchResponse False (JsonValue (JObj kvs))) =
     Inl (new_Error
       (case map_of kvs ''detail'' of
          None \<Rightarrow> ''An unknown API error occurred.''
        | Some v \<Rightarrow> if js_truthy v then js_ToString v else ''An unknown API error occurred.''))"
  by (simp add: post_result_def)

text \<open>What the continuation of a send does when the API call throws.\<close>

lemma resume_rejects:
  assumes "i < length (inflight s)" and "completer (inflight s ! i) = p"
    and "p < length (promises s)" and "promises s ! p = Pending"
    and "post_result reply = Inl e"
  shows "snd (capturePhoto_resume i reply s) =
    s\<lparr>inflight := take i (inflight s) @ drop (Suc i) (inflight s),
       error := Some (if message e = [] then ''An unexpected error occurred during capture.''
                      else message e),
       promises := (promises s)[p := Rejected e], isLoading := False\<rparr>"
  using assms
  by (simp add: capture_defs try_catch_finally_def Let_def)

text \<open>Arming again abandons the promise of the request that was armed.\<close>

lemma rearm_abandons:
  assumes "armed_fresh s" and "captureCompleter s = Some q"
    and "arm = loginWithFace s \<or> arm = signupWithFace so s"
  shows "abandoned q (snd arm) \<and> fst arm \<noteq> q"
proof -
  from assms(1,2) have q: "q < length (promises s)" "promises s ! q = Pending"
    "q \<notin> completer ` set (inflight s)"
    by (auto simp: armed_fresh_def)
  then show ?thesis
    using assms(3)
    by (auto simp: abandoned_def loginWithFace_effect signupWithFace_effect nth_append)
qed

text \<open>The interval handle kept by the composable is never zero.\<close>

lemma capture_handle [simp]:
  "detectionInterval (snd (capturePhoto opts canvas s)) = detectionInterval s"
  "detectionInterval (snd (capturePhoto_resume i reply s)) = detectionInterval s"
  by (auto simp: capture_defs try_catch_finally_def Let_def split: option.splits sum.splits)

lemma detect_handle [simp]:
  "detectionInterval (snd (runDetection s)) = detectionInterval s"
  "detectionInterval (snd (runDetection_resume opts d canvas s)) = detectionInterval s"
  by (auto simp: runDetection_def runDetection_resume_def Let_def split: option.splits sum.splits)

lemma arm_handle [simp]:
  "detectionInterval (snd (loginWithFace s)) = detectionInterval s"
  "detectionInterval (snd (signupWithFace so s)) = detectionInterval s"
  by (simp_all add: loginWithFace_effect signupWithFace_effect)

lemma start_handle:
  "detectionInterval (snd (start s)) = detectionInterval s"
  "detectionInterval (snd (start_resume_models r s)) = detectionInterval s"
  "detectionInterval s \<noteq> Some 0 \<Longrightarrow> detectionInterval (snd (start_resume_camera c s)) \<noteq> Some 0"
  by (auto simp: start_defs try_catch_finally_def Let_def split: option.splits sum.splits)

lemma stop_handle:
  "detectionInterval s \<noteq> Some 0 \<Longrightarrow> detectionInterval (stop s) = None"
  by (auto simp: stop_def clearInterval_def Let_def split: option.splits)

lemma handle_step:
  assumes "detectionInterval s \<noteq> Some 0"
  shows "detectionInterval (step opts e s) \<noteq> Some 0"
proof (cases e)
  case (CameraSettled c)
  have "detectionInterval (snd (start_resume_camera c s')) \<noteq> Some 0"
    if "detectionInterval s' = detectionInterval s" for s'
    using that assms by (intro start_handle(3)) simp
  then show ?thesis using CameraSettled assms
    by (simp add: Let_def split: sum.splits)
next
  case StopCalled
  then show ?thesis using assms by (simp add: stop_handle)
next
  case (VideoRefSet v)
  then show ?thesis using assms by simp
qed (use assms in \<open>simp_all add: start_handle(1,2)\<close>)

lemma handle_run:
  "detectionInterval s \<noteq> Some 0 \<Longrightarrow> detectionInterval (run opts es s) \<noteq> Some 0"
  by (induction es rule: rev_induct) (simp_all add: handle_step)

lemma handle_reachable: "detectionInterval (run opts es init) \<noteq> Some 0"
  by (rule handle_run) (simp add: init_def)

lemma stop_stop: "stop (stop s) = stop s"
  by (simp add: stop_def clearInterval_def Let_def split: option.splits)

lemma stop_funpow: "(stop ^^ Suc k) s = stop s"
  by (induction k) (simp_all add: stop_stop)

lemma stop_cancels:
  "detectionInterval s = Some h \<Longrightarrow> h \<noteq> 0 \<Longrightarrow>
   h \<notin> timers (stop s) \<and> detectionInterval (stop s) = None"
  by (simp add: stop_def clearInterval_def Let_def split: option.splits)

text \<open>No exception leaves \<^verbatim>\<open>start\<close>: its handler and its final block do not throw.\<close>

lemma start_no_throw:
  "fst (start s) \<noteq> Throw e"
  "fst (start_resume_models r s) \<noteq> Throw e"
  "fst (start_resume_camera c s) \<noteq> Throw e"
  by (auto simp: start_defs try_catch_finally_def loadModels_def Let_def
           split: option.splits sum.splits)

lemma start_begins:
  "videoRef s = Some v \<Longrightarrow>
   start s = (Await, s\<lparr>isInitializing := True, error := None,
                         loading_models := Suc (loading_models s)\<rparr>)"
  by (simp add: start_defs try_catch_finally_def)

lemma models_failed:
  "start_resume_models (Some e) s =
     (Normal, s\<lparr>error := Some (''Failed to start camera: '' @
        ''Failed to load face detection models. Please check the modelPath. Error: '' @
        error_toString e), isInitializing := False\<rparr>)"
  by (simp add: start_defs try_catch_finally_def loadModels_def new_Error_def)

lemma models_loaded:
  "start_resume_models None s =
     (Await, s\<lparr>requesting_camera := Suc (requesting_camera s)\<rparr>)"
  by (simp add: start_defs try_catch_finally_def loadModels_def)

lemma camera_denied:
  "start_resume_camera (Inl e) s =
     (Normal, s\<lparr>error := Some (''Failed to start camera: '' @ message e),
                  isInitializing := False\<rparr>)"
  by (simp add: start_defs try_catch_finally_def)

lemma camera_without_video:
  "videoRef s = None \<Longrightarrow>
   start_resume_camera (Inr st) s =
     (Normal, s\<lparr>stream := Some st,
                  error := Some (''Failed to start camera: '' @ null_write_message),
                  isInitializing := False\<rparr>)"
  by (simp add: start_defs try_catch_finally_def)

lemma camera_granted:
  "videoRef s = Some v \<Longrightarrow>
   start_resume_camera (Inr st) s =
     (Normal, s\<lparr>stream := Some st, videoRef := Some (v\<lparr>srcObject := Some st\<rparr>),
                  timers := insert (Suc (last_timer s)) (timers s),
                  last_timer := Suc (last_timer s),
                  detectionInterval := Some (Suc (last_timer s)),
                  isInitializing := False\<rparr>)"
  by (simp add: start_defs try_catch_finally_def Let_def)

section \<open>The claims\<close>

text \<open>
  Claim C1. Whatever the sequence of events since the composable was created (poll ticks,
  detections, calls, replies), at most one capture-and-send is in flight. When
  \<^verbatim>\<open>_capturePhoto\<close> suspends at its \<^verbatim>\<open>await\<close>, \<^verbatim>\<open>captureCompleter\<close> is
  already null. A detection that completes while a send is in flight adds no send and
  still sets \<^verbatim>\<open>faceDetected\<close>.
\<close>

theorem single_send_in_flight:
  "length (inflight (run opts es init)) \<le> 1
   \<and> (fst (capturePhoto opts canvas s) = Await \<longrightarrow>
        captureCompleter (snd (capturePhoto opts canvas s)) = None)
   \<and> (inflight (run opts es init) \<noteq> [] \<longrightarrow>
        inflight (snd (runDetection_resume opts (Inr n) canvas (run opts es init)))
          = inflight (run opts es init)
        \<and> faceDetected (snd (runDetection_resume opts (Inr n) canvas (run opts es init)))
          = (0 < n))"
proof -
  have inv: "one_send (run opts es init)"
    by (rule one_send_run) (rule one_send_init)
  then have bound: "length (inflight (run opts es init)) \<le> 1"
    by (auto simp: one_send_def)
  have cleared: "captureCompleter (snd (capturePhoto opts canvas s)) = None"
    if "fst (capturePhoto opts canvas s) = Await"
    using that
    by (auto simp: capture_defs try_catch_finally_def Let_def split: option.splits sum.splits)
  have busy: "isLoading (run opts es init)" if "inflight (run opts es init) \<noteq> []"
    using inv that by (simp add: one_send_def)
  have noop: "inflight (snd (runDetection_resume opts (Inr n) canvas (run opts es init)))
          = inflight (run opts es init)
        \<and> faceDetected (snd (runDetection_resume opts (Inr n) canvas (run opts es init)))
          = (0 < n)" if "inflight (run opts es init) \<noteq> []"
    using busy [OF that] by (simp add: capture_busy)
  from bound cleared noop show ?thesis by blast
qed

theorem single_send_in_flight_witness:
  "inflight (run demo_options demo_sending init) \<noteq> []
   \<and> length (inflight (run demo_options demo_sending init)) \<le> 1
   \<and> fst (capturePhoto demo_options demo_frame
            (run demo_options (demo_started @ [LoginCalled]) init)) = Await
   \<and> captureCompleter (snd (capturePhoto demo_options demo_frame
            (run demo_options (demo_started @ [LoginCalled]) init))) = None
   \<and> inflight (snd (runDetection_resume demo_options (Inr 2) demo_frame
            (run demo_options demo_sending init)))
        = inflight (run demo_options demo_sending init)
   \<and> faceDetected (snd (runDetection_resume demo_options (Inr 2) demo_frame
            (run demo_options demo_sending init)))"
proof -
  have h1: "inflight (run demo_options demo_sending init) \<noteq> []"
    by code_simp
  have h2: "fst (capturePhoto demo_options demo_frame
            (run demo_options (demo_started @ [LoginCalled]) init)) = Await"
    by code_simp
  from single_send_in_flight [of demo_options demo_sending demo_frame
      "run demo_options (demo_started @ [LoginCalled]) init" 2] h1 h2
  show ?thesis by simp
qed

text \<open>
  Claim C6. A capture that suspends has issued exactly one request: a POST to the base
  URL followed by \<^verbatim>\<open>/auth/login-face\<close> in login mode and by
  \<^verbatim>\<open>/auth/signup-face\<close> in signup mode, with the header \<^verbatim>\<open>X-API-KEY\<close> carrying
  the configured key, and a body holding \<^verbatim>\<open>image_base64\<close>, followed by
  \<^verbatim>\<open>custom_fields\<close> exactly in signup mode with custom fields given. The mode and
  the fields are those of the arming call: \<^verbatim>\<open>loginWithFace\<close> sets login mode,
  \<^verbatim>\<open>signupWithFace\<close> sets signup mode and the fields of its argument.
\<close>

theorem request_shape:
  "(fst (capturePhoto opts canvas s) = Await \<longrightarrow>
      (\<exists>p img dataURL.
         canvas = Inr dataURL \<and> imageBase64_of dataURL = Some img \<and>
         captureCompleter s = Some p \<and>
         inflight (snd (capturePhoto opts canvas s)) = inflight s @
           [\<lparr>completer = p,
             request =
               \<lparr>url = baseURL_of opts @
                        (if captureMode s = Login then ''/auth/login-face''
                         else ''/auth/signup-face''),
                http_method = ''POST'',
                headers = [(''Content-Type'', ''application/json''),
                           (''X-API-KEY'', apiKey opts)],
                body = JObj ((''image_base64'', JStr img) #
                         (case (captureMode s, signupCustomFields s) of
                            (Signup, Some cf) \<Rightarrow> [(''custom_fields'', JObj cf)]
                          | _ \<Rightarrow> []))\<rparr>\<rparr>]))
   \<and> captureMode (snd (loginWithFace s)) = Login
   \<and> captureMode (snd (signupWithFace so s)) = Signup
   \<and> signupCustomFields (snd (signupWithFace so s))
        = (case so of None \<Rightarrow> None | Some opt \<Rightarrow> customFields opt)"
proof -
  have sent: "\<exists>p img dataURL.
         canvas = Inr dataURL \<and> imageBase64_of dataURL = Some img \<and>
         captureCompleter s = Some p \<and>
         inflight (snd (capturePhoto opts canvas s)) = inflight s @
           [\<lparr>completer = p,
             request =
               \<lparr>url = baseURL_of opts @
                        (if captureMode s = Login then ''/auth/login-face''
                         else ''/auth/signup-face''),
                http_method = ''POST'',
                headers = [(''Content-Type'', ''application/json''),
                           (''X-API-KEY'', apiKey opts)],
                body = JObj ((''image_base64'', JStr img) #
                         (case (captureMode s, signupCustomFields s) of
                            (Signup, Some cf) \<Rightarrow> [(''custom_fields'', JObj cf)]
                          | _ \<Rightarrow> []))\<rparr>\<rparr>]"
    if "fst (capturePhoto opts canvas s) = Await"
    using that
    by (cases "captureMode s")
       (auto simp: capture_defs try_catch_finally_def Let_def loginWithFaceApi_def
          signupWithFaceApi_def post_request_def
          split: option.splits sum.splits if_splits)
  show ?thesis using sent
    by (simp add: loginWithFace_effect signupWithFace_effect)
qed

theorem request_shape_witness:
  "fst (capturePhoto demo_options demo_frame
     (snd (signupWithFace (Some \<lparr>customFields = Some [(''plan'', JStr ''pro'')]\<rparr>)
        (run demo_options demo_started init)))) = Await
   \<and> map request (inflight (snd (capturePhoto demo_options demo_frame
     (snd (signupWithFace (Some \<lparr>customFields = Some [(''plan'', JStr ''pro'')]\<rparr>)
        (run demo_options demo_started init))))))
     = [\<lparr>url = ''https://api.biologreen.com/v1/auth/signup-face'',
         http_method = ''POST'',
         headers = [(''Content-Type'', ''application/json''), (''X-API-KEY'', ''key'')],
         body = JObj [(''image_base64'', JStr ''AAAA''),
                      (''custom_fields'', JObj [(''plan'', JStr ''pro'')])]\<rparr>]"
proof -
  let ?s = "snd (signupWithFace (Some \<lparr>customFields = Some [(''plan'', JStr ''pro'')]\<rparr>)
        (run demo_options demo_started init))"
  have h: "fst (capturePhoto demo_options demo_frame ?s) = Await"
    by code_simp
  have r: "map request (inflight (snd (capturePhoto demo_options demo_frame ?s)))
     = [\<lparr>url = ''https://api.biologreen.com/v1/auth/signup-face'',
         http_method = ''POST'',
         headers = [(''Content-Type'', ''application/json''), (''X-API-KEY'', ''key'')],
         body = JObj [(''image_base64'', JStr ''AAAA''),
                      (''custom_fields'', JObj [(''plan'', JStr ''pro'')])]\<rparr>]"
    by code_simp
  from request_shape [of demo_options demo_frame ?s None] h r
  show ?thesis by simp
qed

text \<open>
  Claim C2. Take a state with the video element mounted and no capture in progress, and
  arm a request with \<^verbatim>\<open>loginWithFace\<close> or \<^verbatim>\<open>signupWithFace\<close>. When the next
  detection reports a face and the frame encodes to a non-empty image, the promise
  returned by the arming call is still pending after that tick, and when the Auth Service
  then answers with an ok response whose body parses to \<open>response\<close>, the promise is
  resolved with exactly \<open>response\<close>.
\<close>

theorem resolves_with_response:
  assumes "videoRef s0 = Some v" and "\<not> isLoading s0" and "0 < n"
    and "imageBase64_of dataURL = Some img" and "img \<noteq> []"
    and "arm = loginWithFace s0 \<or> arm = signupWithFace so s0"
  shows "promises (snd (runDetection_resume opts (Inr n) (Inr dataURL) (snd arm))) ! fst arm
           = Pending
    \<and> promises (snd (capturePhoto_resume (length (inflight s0))
          (FetchResponse True (JsonValue response))
          (snd (runDetection_resume opts (Inr n) (Inr dataURL) (snd arm))))) ! fst arm
        = Resolved response"
proof -
  let ?p = "length (promises s0)"
  have p: "fst arm = ?p"
    using assms(6) by (auto simp: loginWithFace_effect signupWithFace_effect)
  have armed: "captureCompleter (snd arm) = Some ?p" "videoRef (snd arm) = Some v"
    "\<not> isLoading (snd arm)" "promises (snd arm) = promises s0 @ [Pending]"
    "inflight (snd arm) = inflight s0"
    using assms(1,2,6) by (auto simp: loginWithFace_effect signupWithFace_effect)
  let ?s1 = "snd (runDetection_resume opts (Inr n) (Inr dataURL) (snd arm))"
  have fired: "inflight ?s1 ! length (inflight s0) =
      \<lparr>completer = ?p,
       request = (if captureMode (snd arm) = Login
                  then loginWithFaceApi (apiKey opts) (baseURL_of opts) img
                  else signupWithFaceApi (apiKey opts) (baseURL_of opts) img
                         (signupCustomFields (snd arm)))\<rparr>"
    "length (inflight ?s1) = Suc (length (inflight s0))"
    "promises ?s1 = promises s0 @ [Pending]"
    using armed assms(3,4,5)
    by (simp_all add: detect_fires [where v = v and p = ?p and img = img])
  have "promises (snd (capturePhoto_resume (length (inflight s0))
          (FetchResponse True (JsonValue response)) ?s1)) ! ?p = Resolved response"
    using fired by (simp add: resume_resolves [where p = ?p])
  then show ?thesis using p fired(3) by simp
qed

theorem resolves_with_response_witness:
  "videoRef (run demo_options demo_started init) = Some \<lparr>srcObject = Some 7\<rparr>
   \<and> \<not> isLoading (run demo_options demo_started init)
   \<and> imageBase64_of ''data:image/jpeg;base64,AAAA'' = Some ''AAAA''
   \<and> fst (signupWithFace None (run demo_options demo_started init)) = 0
   \<and> promises (snd (capturePhoto_resume 0
          (FetchResponse True
             (JsonValue (JObj [(''user_id'', JNum 42), (''is_new_user'', JBool True)])))
          (snd (runDetection_resume demo_options (Inr 1) demo_frame
             (snd (signupWithFace None (run demo_options demo_started init))))))) ! 0
     = Resolved (JObj [(''user_id'', JNum 42), (''is_new_user'', JBool True)])"
proof -
  let ?s0 = "run demo_options demo_started init"
  have h1: "videoRef ?s0 = Some \<lparr>srcObject = Some 7\<rparr>" and h2: "\<not> isLoading ?s0"
    and h3: "imageBase64_of ''data:image/jpeg;base64,AAAA'' = Some ''AAAA''"
    and h4: "fst (signupWithFace None ?s0) = 0" and h5: "inflight ?s0 = []"
    by code_simp+
  from resolves_with_response [OF h1 h2 _ h3, of 1 "signupWithFace None ?s0" None
        demo_options "JObj [(''user_id'', JNum 42), (''is_new_user'', JBool True)]"]
    h1 h2 h3 h4 h5
  show ?thesis by simp
qed

text \<open>
  Claim C4. When the detector answers a poll tick with \<open>n\<close> detections,
  \<^verbatim>\<open>faceDetected\<close> becomes \<open>0 < n\<close>, and \<^verbatim>\<open>_capturePhoto\<close> runs exactly when a
  request is armed, a face is present and \<^verbatim>\<open>isLoading\<close> is false: then the state is
  the one \<^verbatim>\<open>_capturePhoto\<close> leaves, otherwise only \<^verbatim>\<open>faceDetected\<close> has changed.
  With the video element mounted, the tick takes the armed request exactly under that
  condition. In particular a tick with no face sets \<^verbatim>\<open>faceDetected\<close> to false and
  leaves the armed request, the sends in flight, the promises and the busy flag as they
  were.
\<close>

theorem tick_gate:
  "faceDetected (snd (runDetection_resume opts (Inr n) canvas s)) = (0 < n)
   \<and> (captureCompleter s \<noteq> None \<and> 0 < n \<and> \<not> isLoading s \<longrightarrow>
        snd (runDetection_resume opts (Inr n) canvas s)
          = snd (capturePhoto opts canvas (s\<lparr>faceDetected := True\<rparr>)))
   \<and> (\<not> (captureCompleter s \<noteq> None \<and> 0 < n \<and> \<not> isLoading s) \<longrightarrow>
        snd (runDetection_resume opts (Inr n) canvas s) = s\<lparr>faceDetected := (0 < n)\<rparr>)
   \<and> (videoRef s \<noteq> None \<longrightarrow>
        (captureCompleter s \<noteq> None \<and>
         captureCompleter (snd (runDetection_resume opts (Inr n) canvas s)) = None)
        = (captureCompleter s \<noteq> None \<and> 0 < n \<and> \<not> isLoading s))
   \<and> (n = 0 \<longrightarrow>
        \<not> faceDetected (snd (runDetection_resume opts (Inr n) canvas s))
        \<and> captureCompleter (snd (runDetection_resume opts (Inr n) canvas s))
            = captureCompleter s
        \<and> inflight (snd (runDetection_resume opts (Inr n) canvas s)) = inflight s
        \<and> promises (snd (runDetection_resume opts (Inr n) canvas s)) = promises s
        \<and> isLoading (snd (runDetection_resume opts (Inr n) canvas s)) = isLoading s)"
proof -
  let ?go = "captureCompleter s \<noteq> None \<and> 0 < n \<and> \<not> isLoading s"
  let ?s' = "snd (runDetection_resume opts (Inr n) canvas s)"
  have fire: "?s' = snd (capturePhoto opts canvas (s\<lparr>faceDetected := True\<rparr>))" if "?go"
    using that by (simp add: runDetection_resume_def Let_def)
  have skip: "?s' = s\<lparr>faceDetected := (0 < n)\<rparr>" if "\<not> ?go"
    using that by (auto simp: runDetection_resume_def Let_def)
  have face: "faceDetected ?s' = (0 < n)"
  proof (cases "?go")
    case True
    then show ?thesis by (simp add: fire)
  next
    case False
    then show ?thesis by (simp only: skip [OF False]) simp
  qed
  have taken: "(captureCompleter s \<noteq> None \<and> captureCompleter ?s' = None) = ?go"
    if "videoRef s \<noteq> None"
  proof (cases "?go")
    case True
    then show ?thesis using that by (simp add: fire capture_disarms)
  next
    case False
    then show ?thesis by (simp only: skip [OF False]) auto
  qed
  have none: "\<not> faceDetected ?s' \<and> captureCompleter ?s' = captureCompleter s
      \<and> inflight ?s' = inflight s \<and> promises ?s' = promises s \<and> isLoading ?s' = isLoading s"
    if "n = 0"
    using that by (simp add: runDetection_resume_def Let_def)
  from face fire skip taken none show ?thesis by blast
qed

theorem tick_gate_witness:
  "captureCompleter (run demo_options (demo_started @ [LoginCalled]) init) = Some 0
   \<and> \<not> isLoading (run demo_options (demo_started @ [LoginCalled]) init)
   \<and> videoRef (run demo_options (demo_started @ [LoginCalled]) init) \<noteq> None
   \<and> \<not> faceDetected (snd (runDetection_resume demo_options (Inr 0) demo_frame
          (run demo_options (demo_started @ [LoginCalled]) init)))
   \<and> captureCompleter (snd (runDetection_resume demo_options (Inr 0) demo_frame
          (run demo_options (demo_started @ [LoginCalled]) init))) = Some 0
   \<and> inflight (snd (runDetection_resume demo_options (Inr 0) demo_frame
          (run demo_options (demo_started @ [LoginCalled]) init))) = []
   \<and> captureCompleter (snd (runDetection_resume demo_options (Inr 1) demo_frame
          (run demo_options (demo_started @ [LoginCalled]) init))) = None"
proof -
  let ?s = "run demo_options (demo_started @ [LoginCalled]) init"
  have h1: "captureCompleter ?s = Some 0" and h2: "\<not> isLoading ?s"
    and h3: "videoRef ?s \<noteq> None" and h4: "inflight ?s = []"
    by code_simp+
  have none: "\<not> faceDetected (snd (runDetection_resume demo_options (Inr 0) demo_frame ?s))
      \<and> captureCompleter (snd (runDetection_resume demo_options (Inr 0) demo_frame ?s))
          = captureCompleter ?s
      \<and> inflight (snd (runDetection_resume demo_options (Inr 0) demo_frame ?s)) = inflight ?s"
    using tick_gate [of demo_options 0 demo_frame ?s] by blast
  have "(captureCompleter ?s \<noteq> None \<and>
         captureCompleter (snd (runDetection_resume demo_options (Inr 1) demo_frame ?s)) = None)
        = (captureCompleter ?s \<noteq> None \<and> (0::nat) < 1 \<and> \<not> isLoading ?s)"
    using tick_gate [of demo_options 1 demo_frame ?s] h3 by blast
  then have one: "captureCompleter (snd (runDetection_resume demo_options (Inr 1) demo_frame ?s))
      = None"
    using h1 h2 by simp
  from none one h1 h2 h3 h4 show ?thesis by simp
qed

text \<open>
  Claim C7. However a capture-and-send ends (the continuation of a send, whatever the
  Auth Service or the network answered, or a capture that ended without sending because
  the frame could not be encoded), \<^verbatim>\<open>isLoading\<close> is false afterwards. A request armed
  after that with \<^verbatim>\<open>loginWithFace\<close> is fired by the next detection that reports a
  face and encodes its frame: the busy flag is set again, the request is disarmed and the
  login request is in flight for the new promise.
\<close>

theorem busy_flag_cleared:
  assumes "(i < length (inflight s) \<and> s1 = snd (capturePhoto_resume i reply s))
     \<or> (videoRef s \<noteq> None \<and> captureCompleter s \<noteq> None \<and>
        fst (capturePhoto opts canvas s) \<noteq> Await \<and> s1 = snd (capturePhoto opts canvas s))"
  shows "\<not> isLoading s1
    \<and> (videoRef s1 = Some v \<and> 0 < n \<and> imageBase64_of dataURL = Some img \<and> img \<noteq> [] \<longrightarrow>
         isLoading (snd (runDetection_resume opts (Inr n) (Inr dataURL) (snd (loginWithFace s1))))
         \<and> captureCompleter
             (snd (runDetection_resume opts (Inr n) (Inr dataURL) (snd (loginWithFace s1))))
            = None
         \<and> inflight (snd (runDetection_resume opts (Inr n) (Inr dataURL) (snd (loginWithFace s1))))
            = inflight s1 @
                [\<lparr>completer = fst (loginWithFace s1),
                  request = loginWithFaceApi (apiKey opts) (baseURL_of opts) img\<rparr>])"
proof -
  have idle: "\<not> isLoading s1"
    using assms by (auto simp: resume_idle capture_end_idle)
  have again: "isLoading (snd (runDetection_resume opts (Inr n) (Inr dataURL) (snd (loginWithFace s1))))
         \<and> captureCompleter
             (snd (runDetection_resume opts (Inr n) (Inr dataURL) (snd (loginWithFace s1))))
            = None
         \<and> inflight (snd (runDetection_resume opts (Inr n) (Inr dataURL) (snd (loginWithFace s1))))
            = inflight s1 @
                [\<lparr>completer = fst (loginWithFace s1),
                  request = loginWithFaceApi (apiKey opts) (baseURL_of opts) img\<rparr>]"
    if "videoRef s1 = Some v" "0 < n" "imageBase64_of dataURL = Some img" "img \<noteq> []"
  proof -
    let ?a = "snd (loginWithFace s1)"
    have a: "videoRef ?a = Some v" "captureCompleter ?a = Some (fst (loginWithFace s1))"
      "\<not> isLoading ?a" "captureMode ?a = Login" "inflight ?a = inflight s1"
      using that(1) idle by (simp_all add: loginWithFace_effect)
    show ?thesis
      using a that(2,3,4)
      by (simp add: detect_fires [where v = v and p = "fst (loginWithFace s1)" and img = img])
  qed
  from idle again show ?thesis by blast
qed

theorem busy_flag_cleared_witness:
  "0 < length (inflight (run demo_options demo_sending init))
   \<and> isLoading (run demo_options demo_sending init)
   \<and> \<not> isLoading (snd (capturePhoto_resume 0
         (FetchResponse False (JsonValue (JObj [(''detail'', JStr ''duplicate face'')])))
         (run demo_options demo_sending init)))
   \<and> videoRef (snd (capturePhoto_resume 0
         (FetchResponse False (JsonValue (JObj [(''detail'', JStr ''duplicate face'')])))
         (run demo_options demo_sending init))) = Some \<lparr>srcObject = Some 7\<rparr>
   \<and> imageBase64_of ''data:image/jpeg;base64,AAAA'' = Some ''AAAA''
   \<and> isLoading (snd (runDetection_resume demo_options (Inr 1) demo_frame
         (snd (loginWithFace (snd (capturePhoto_resume 0
           (FetchResponse False (JsonValue (JObj [(''detail'', JStr ''duplicate face'')])))
           (run demo_options demo_sending init)))))))"
proof -
  let ?s = "run demo_options demo_sending init"
  let ?r = "FetchResponse False (JsonValue (JObj [(''detail'', JStr ''duplicate face'')]))"
  let ?s1 = "snd (capturePhoto_resume 0 ?r ?s)"
  have h1: "0 < length (inflight ?s)" and h2: "isLoading ?s"
    and h3: "videoRef ?s1 = Some \<lparr>srcObject = Some 7\<rparr>"
    and h4: "imageBase64_of ''data:image/jpeg;base64,AAAA'' = Some ''AAAA''"
    by code_simp+
  have "(0 < length (inflight ?s) \<and> ?s1 = snd (capturePhoto_resume 0 ?r ?s))
     \<or> (videoRef ?s \<noteq> None \<and> captureCompleter ?s \<noteq> None \<and>
        fst (capturePhoto demo_options demo_frame ?s) \<noteq> Await \<and>
        ?s1 = snd (capturePhoto demo_options demo_frame ?s))"
    using h1 by simp
  from busy_flag_cleared [OF this, where v = "\<lparr>srcObject = Some 7\<rparr>" and n = 1
      and dataURL = "''data:image/jpeg;base64,AAAA''" and img = "''AAAA''"] h1 h2 h3 h4
  show ?thesis by simp
qed

text \<open>
  Claim C3, as amended. When the Auth Service answers a send with a response that is not
  ok and whose body parses to an object in which \<^verbatim>\<open>detail\<close> is absent or a string, the
  promise of that send is rejected with an \<^verbatim>\<open>Error\<close> whose message is \<^verbatim>\<open>detail\<close>
  when that is a non-empty string and \<^verbatim>\<open>An unknown API error occurred.\<close> otherwise,
  and \<^verbatim>\<open>error\<close> is set to that same string.

  The claim as stated, for every response that is not ok, fails: an empty \<^verbatim>\<open>detail\<close>
  is present and the message is the generic one; a body that is not JSON rejects with
  the parser's error; and a \<^verbatim>\<open>detail\<close> that is an empty array gives the empty message,
  with \<^verbatim>\<open>error\<close> set to another string.
\<close>

theorem api_error_message:
  assumes "i < length (inflight s)" and "completer (inflight s ! i) = p"
    and "p < length (promises s)" and "promises s ! p = Pending"
    and "map_of kvs ''detail'' = None \<or> (\<exists>d. map_of kvs ''detail'' = Some (JStr d))"
    and "msg = (case map_of kvs ''detail'' of
                  Some (JStr d) \<Rightarrow> if d = [] then ''An unknown API error occurred.'' else d
                | _ \<Rightarrow> ''An unknown API error occurred.'')"
  shows "promises (snd (capturePhoto_resume i (FetchResponse False (JsonValue (JObj kvs))) s)) ! p
           = Rejected (JsError ''Error'' msg)
    \<and> error (snd (capturePhoto_resume i (FetchResponse False (JsonValue (JObj kvs))) s))
           = Some msg"
proof -
  have thrown: "post_result (FetchResponse False (JsonValue (JObj kvs))) = Inl (new_Error msg)"
    using assms(5,6) by (auto simp: post_result_error_object)
  have nonempty: "msg \<noteq> []"
    using assms(5,6) by (auto split: if_splits)
  show ?thesis
    using assms(3) nonempty
    by (simp add: resume_rejects [OF assms(1-4) thrown] new_Error_def)
qed

theorem api_error_message_witness:
  "0 < length (inflight (run demo_options demo_sending init))
   \<and> completer (inflight (run demo_options demo_sending init) ! 0) = 0
   \<and> promises (run demo_options demo_sending init) ! 0 = Pending
   \<and> promises (snd (capturePhoto_resume 0
        (FetchResponse False (JsonValue (JObj [(''detail'', JStr ''duplicate face'')])))
        (run demo_options demo_sending init))) ! 0
      = Rejected (JsError ''Error'' ''duplicate face'')
   \<and> error (snd (capturePhoto_resume 0
        (FetchResponse False (JsonValue (JObj [(''detail'', JStr ''duplicate face'')])))
        (run demo_options demo_sending init)))
      = Some ''duplicate face''"
proof -
  let ?s = "run demo_options demo_sending init"
  have h1: "0 < length (inflight ?s)" and h2: "completer (inflight ?s ! 0) = 0"
    and h3: "0 < length (promises ?s)" and h4: "promises ?s ! 0 = Pending"
    by code_simp+
  have h5: "map_of [(''detail'', JStr ''duplicate face'')] ''detail'' = None
      \<or> (\<exists>d. map_of [(''detail'', JStr ''duplicate face'')] ''detail'' = Some (JStr d))"
    by simp
  have h6: "''duplicate face'' =
      (case map_of [(''detail'', JStr ''duplicate face'')] ''detail'' of
         Some (JStr d) \<Rightarrow> if d = [] then ''An unknown API error occurred.'' else d
       | _ \<Rightarrow> ''An unknown API error occurred.'')"
    by simp
  from api_error_message [OF h1 h2 h3 h4 h5 h6] h1 h2 h4
  show ?thesis by simp
qed

theorem api_error_message_counterexample:
  "promises (snd (capturePhoto_resume 0
        (FetchResponse False (JsonValue (JObj [(''detail'', JStr '''')])))
        (run demo_options demo_sending init))) ! 0
      = Rejected (JsError ''Error'' ''An unknown API error occurred.'')
   \<and> promises (snd (capturePhoto_resume 0
        (FetchResponse False
           (JsonRejected (JsError ''SyntaxError'' ''Unexpected token < in JSON at position 0'')))
        (run demo_options demo_sending init))) ! 0
      = Rejected (JsError ''SyntaxError'' ''Unexpected token < in JSON at position 0'')
   \<and> promises (snd (capturePhoto_resume 0
        (FetchResponse False (JsonValue (JObj [(''detail'', JArr [])])))
        (run demo_options demo_sending init))) ! 0
      = Rejected (JsError ''Error'' '''')
   \<and> error (snd (capturePhoto_resume 0
        (FetchResponse False (JsonValue (JObj [(''detail'', JArr [])])))
        (run demo_options demo_sending init)))
      = Some ''An unexpected error occurred during capture.''"
  by code_simp

text \<open>
  Claim C5. After any events \<open>es0\<close>, a request is armed (its promise is the next
  position of \<open>promises\<close>); after further events \<open>es1\<close> it is still the armed one,
  so no capture has taken it; then a second request is armed. From then on, whatever
  happens, the first promise stays pending: it is never resolved nor rejected. The second
  promise is another one, and the next qualifying detection sends the request of the
  second arming alone: the login request, or the signup request with the custom fields
  of the second call.
\<close>

theorem superseded_request:
  assumes "e1 = LoginCalled \<or> (\<exists>so1. e1 = SignupCalled so1)"
    and "s0 = run opts es0 init"
    and "s1 = run opts es1 (step opts e1 s0)"
    and "captureCompleter s1 = Some (length (promises s0))"
    and "arm = loginWithFace s1 \<or> arm = signupWithFace so s1"
  shows "promises (run opts es (snd arm)) ! length (promises s0) = Pending
    \<and> fst arm \<noteq> length (promises s0)
    \<and> (videoRef s1 = Some v \<and> \<not> isLoading s1 \<and> 0 < n \<and>
        imageBase64_of dataURL = Some img \<and> img \<noteq> [] \<longrightarrow>
          (arm = loginWithFace s1 \<longrightarrow>
             inflight (snd (runDetection_resume opts (Inr n) (Inr dataURL) (snd arm)))
               = inflight s1 @
                   [\<lparr>completer = fst arm,
                     request = loginWithFaceApi (apiKey opts) (baseURL_of opts) img\<rparr>])
        \<and> (arm = signupWithFace so s1 \<longrightarrow>
             inflight (snd (runDetection_resume opts (Inr n) (Inr dataURL) (snd arm)))
               = inflight s1 @
                   [\<lparr>completer = fst arm,
                     request = signupWithFaceApi (apiKey opts) (baseURL_of opts) img
                       (case so of None \<Rightarrow> None | Some opt \<Rightarrow> customFields opt)\<rparr>]))"
proof -
  let ?p1 = "length (promises s0)"
  have "armed_fresh s0"
    unfolding assms(2) by (rule armed_fresh_run) (rule armed_fresh_init)
  then have "armed_fresh s1"
    unfolding assms(3) by (intro armed_fresh_run armed_fresh_step)
  from rearm_abandons [OF this assms(4,5)]
  have ab: "abandoned ?p1 (snd arm)" and new: "fst arm \<noteq> ?p1"
    by simp_all
  from ab have "abandoned ?p1 (run opts es (snd arm))"
    by (rule abandoned_run)
  then have never: "promises (run opts es (snd arm)) ! ?p1 = Pending"
    by (simp add: abandoned_def)
  have login: "inflight (snd (runDetection_resume opts (Inr n) (Inr dataURL) (snd arm)))
               = inflight s1 @
                   [\<lparr>completer = fst arm,
                     request = loginWithFaceApi (apiKey opts) (baseURL_of opts) img\<rparr>]"
    if "videoRef s1 = Some v" "\<not> isLoading s1" "0 < n" "imageBase64_of dataURL = Some img"
      "img \<noteq> []" "arm = loginWithFace s1"
    using that
    by (simp add: loginWithFace_effect
          detect_fires [where v = v and p = "length (promises s1)" and img = img])
  have signup: "inflight (snd (runDetection_resume opts (Inr n) (Inr dataURL) (snd arm)))
               = inflight s1 @
                   [\<lparr>completer = fst arm,
                     request = signupWithFaceApi (apiKey opts) (baseURL_of opts) img
                       (case so of None \<Rightarrow> None | Some opt \<Rightarrow> customFields opt)\<rparr>]"
    if "videoRef s1 = Some v" "\<not> isLoading s1" "0 < n" "imageBase64_of dataURL = Some img"
      "img \<noteq> []" "arm = signupWithFace so s1"
    using that
    by (simp add: signupWithFace_effect
          detect_fires [where v = v and p = "length (promises s1)" and img = img])
  from never new login signup show ?thesis by blast
qed

theorem superseded_request_witness:
  "captureCompleter (run demo_options [TimerFired 1, DetectionSettled (Inr 0) demo_frame]
      (step demo_options (SignupCalled (Some \<lparr>customFields = Some [(''plan'', JStr ''pro'')]\<rparr>))
         (run demo_options demo_started init)))
     = Some (length (promises (run demo_options demo_started init)))
   \<and> length (promises (run demo_options demo_started init)) = 0
   \<and> promises (run demo_options
        [TimerFired 1, DetectionSettled (Inr 1) demo_frame,
         FetchSettled 0 (FetchResponse True (JsonValue (JObj [(''user_id'', JNum 42)])))]
        (snd (loginWithFace
          (run demo_options [TimerFired 1, DetectionSettled (Inr 0) demo_frame]
            (step demo_options
              (SignupCalled (Some \<lparr>customFields = Some [(''plan'', JStr ''pro'')]\<rparr>))
              (run demo_options demo_started init)))))) ! 0 = Pending
   \<and> promises (run demo_options
        [TimerFired 1, DetectionSettled (Inr 1) demo_frame,
         FetchSettled 0 (FetchResponse True (JsonValue (JObj [(''user_id'', JNum 42)])))]
        (snd (loginWithFace
          (run demo_options [TimerFired 1, DetectionSettled (Inr 0) demo_frame]
            (step demo_options
              (SignupCalled (Some \<lparr>customFields = Some [(''plan'', JStr ''pro'')]\<rparr>))
              (run demo_options demo_started init)))))) ! 1
       = Resolved (JObj [(''user_id'', JNum 42)])"
proof -
  let ?e1 = "SignupCalled (Some \<lparr>customFields = Some [(''plan'', JStr ''pro'')]\<rparr>)"
  let ?s0 = "run demo_options demo_started init"
  let ?s1 = "run demo_options [TimerFired 1, DetectionSettled (Inr 0) demo_frame]
      (step demo_options ?e1 ?s0)"
  let ?es = "[TimerFired 1, DetectionSettled (Inr 1) demo_frame,
         FetchSettled 0 (FetchResponse True (JsonValue (JObj [(''user_id'', JNum 42)])))]"
  have h0: "length (promises ?s0) = 0"
    by code_simp
  have h1: "captureCompleter ?s1 = Some (length (promises ?s0))"
    by code_simp
  have h2: "?e1 = LoginCalled \<or> (\<exists>so1. ?e1 = SignupCalled so1)"
    by simp
  have h3: "promises (run demo_options ?es (snd (loginWithFace ?s1))) ! 1
      = Resolved (JObj [(''user_id'', JNum 42)])"
    by code_simp
  have "promises (run demo_options ?es (snd (loginWithFace ?s1))) ! length (promises ?s0)
      = Pending"
    using superseded_request [OF h2 refl refl h1, of "loginWithFace ?s1" None ?es]
    by simp
  with h0 h1 h3 show ?thesis by simp
qed

text \<open>
  Claim C9. \<^verbatim>\<open>stop\<close> is a total function with no throwing statement. Calling it
  twice, or any number of times in a row, gives the state of one call, and before
  \<^verbatim>\<open>start\<close> has ever run it changes nothing. After it \<^verbatim>\<open>faceDetected\<close> is false
  and no stream is held; the tracks of the stream that was held are stopped; in every
  state the composable can reach, the interval timer whose handle it holds is cancelled;
  and the video element, when mounted, has its \<^verbatim>\<open>srcObject\<close> reset to null.
\<close>

theorem stop_idempotent:
  "stop (stop s) = stop s
   \<and> (stop ^^ Suc k) s = stop s
   \<and> stop init = init
   \<and> \<not> faceDetected (stop s)
   \<and> stream (stop s) = None
   \<and> (stream s = Some st \<longrightarrow> st \<notin> live_streams (stop s))
   \<and> (detectionInterval (run opts es init) = Some h \<longrightarrow>
        h \<notin> timers (stop (run opts es init))
        \<and> detectionInterval (stop (run opts es init)) = None)
   \<and> (videoRef s = Some v \<longrightarrow> videoRef (stop s) = Some (v\<lparr>srcObject := None\<rparr>))
   \<and> (videoRef s = None \<longrightarrow> videoRef (stop s) = None)"
proof -
  have before: "stop init = init"
    by (simp add: stop_def init_def)
  have face: "\<not> faceDetected (stop s)" and str: "stream (stop s) = None"
    by (simp_all add: stop_def clearInterval_def Let_def split: option.splits)
  have tracks: "st \<notin> live_streams (stop s)" if "stream s = Some st"
    using that by (simp add: stop_def clearInterval_def Let_def split: option.splits)
  have timer: "h \<notin> timers (stop (run opts es init))
      \<and> detectionInterval (stop (run opts es init)) = None"
    if "detectionInterval (run opts es init) = Some h"
  proof -
    from that handle_reachable [of opts es] have "h \<noteq> 0" by auto
    with that show ?thesis by (rule stop_cancels)
  qed
  have detach: "videoRef (stop s) = Some (v\<lparr>srcObject := None\<rparr>)" if "videoRef s = Some v"
    using that by (simp add: stop_def clearInterval_def Let_def split: option.splits)
  have absent: "videoRef (stop s) = None" if "videoRef s = None"
    using that by (simp add: stop_def clearInterval_def Let_def split: option.splits)
  show ?thesis
  proof (intro conjI impI)
    show "stop (stop s) = stop s" by (rule stop_stop)
    show "(stop ^^ Suc k) s = stop s" by (rule stop_funpow)
    show "stop init = init" by (rule before)
    show "\<not> faceDetected (stop s)" by (rule face)
    show "stream (stop s) = None" by (rule str)
    show "st \<notin> live_streams (stop s)" if "stream s = Some st"
      using that by (rule tracks)
    show "h \<notin> timers (stop (run opts es init))"
      if "detectionInterval (run opts es init) = Some h"
      using timer [OF that] by (rule conjunct1)
    show "detectionInterval (stop (run opts es init)) = None"
      if "detectionInterval (run opts es init) = Some h"
      using timer [OF that] by (rule conjunct2)
    show "videoRef (stop s) = Some (v\<lparr>srcObject := None\<rparr>)" if "videoRef s = Some v"
      using that by (rule detach)
    show "videoRef (stop s) = None" if "videoRef s = None"
      using that by (rule absent)
  qed
qed

theorem stop_idempotent_witness:
  "stream (run demo_options demo_started init) = Some 7
   \<and> detectionInterval (run demo_options demo_started init) = Some 1
   \<and> videoRef (run demo_options demo_started init) = Some \<lparr>srcObject = Some 7\<rparr>
   \<and> timers (run demo_options demo_started init) = {1}
   \<and> live_streams (run demo_options demo_started init) = {7}
   \<and> 7 \<notin> live_streams (stop (run demo_options demo_started init))
   \<and> 1 \<notin> timers (stop (run demo_options demo_started init))
   \<and> detectionInterval (stop (run demo_options demo_started init)) = None
   \<and> videoRef (stop (run demo_options demo_started init)) = Some \<lparr>srcObject = None\<rparr>
   \<and> stop (stop (run demo_options demo_started init)) = stop (run demo_options demo_started init)"
proof -
  let ?s = "run demo_options demo_started init"
  have h1: "stream ?s = Some 7" and h2: "detectionInterval ?s = Some 1"
    and h3: "videoRef ?s = Some \<lparr>srcObject = Some 7\<rparr>"
    and h4: "timers ?s = {1}" and h5: "live_streams ?s = {7}"
    by code_simp+
  from stop_idempotent [of ?s 0 7 demo_options demo_started 1 "\<lparr>srcObject = Some 7\<rparr>"]
    h1 h2 h3 h4 h5
  show ?thesis by simp
qed

text \<open>
  Claim C10. \<^verbatim>\<open>start\<close> called while the video ref is null returns at once: the
  error is \<^verbatim>\<open>Video element reference is not available.\<close>, no model load and no
  camera request are pending more than before, no timer or stream is added, and
  \<^verbatim>\<open>isInitializing\<close> is left as it was.
\<close>

theorem start_without_video:
  assumes "videoRef s = None"
  shows "fst (start s) = Normal
    \<and> error (snd (start s)) = Some ''Video element reference is not available.''
    \<and> isInitializing (snd (start s)) = isInitializing s
    \<and> loading_models (snd (start s)) = loading_models s
    \<and> requesting_camera (snd (start s)) = requesting_camera s
    \<and> timers (snd (start s)) = timers s
    \<and> detectionInterval (snd (start s)) = detectionInterval s
    \<and> stream (snd (start s)) = stream s
    \<and> live_streams (snd (start s)) = live_streams s"
  using assms by (simp add: start_def)

theorem start_without_video_witness:
  "videoRef init = None
   \<and> fst (start init) = Normal
   \<and> error (snd (start init)) = Some ''Video element reference is not available.''
   \<and> \<not> isInitializing (snd (start init))
   \<and> loading_models (snd (start init)) = 0
   \<and> requesting_camera (snd (start init)) = 0
   \<and> timers (snd (start init)) = {}"
proof -
  have h: "videoRef init = None"
    by (simp add: init_def)
  from start_without_video [OF h] h show ?thesis
    by (simp add: init_def)
qed

text \<open>
  Claim C8. No part of \<^verbatim>\<open>start\<close> ends by throwing. Past the check of the video ref,
  \<^verbatim>\<open>start\<close> sets \<^verbatim>\<open>isInitializing\<close> and suspends; loading the models keeps the
  flag. When the models fail to load, when the camera is refused, and when the video
  element has gone once the camera is granted, \<^verbatim>\<open>error\<close> is set to
  \<^verbatim>\<open>Failed to start camera: \<close> followed by the message, \<^verbatim>\<open>isInitializing\<close> is false,
  and the timers and the handle are as before: started from the initial state, no timer
  is running. When streaming begins the flag is false too, and the poll timer runs.
\<close>

theorem start_failure:
  "fst (start s) \<noteq> Throw e
   \<and> fst (start_resume_models r s) \<noteq> Throw e
   \<and> fst (start_resume_camera c s) \<noteq> Throw e
   \<and> (videoRef s \<noteq> None \<longrightarrow>
        fst (start s) = Await \<and> isInitializing (snd (start s)) \<and> error (snd (start s)) = None
        \<and> timers (snd (start s)) = timers s)
   \<and> fst (start_resume_models None s) = Await
   \<and> isInitializing (snd (start_resume_models None s)) = isInitializing s
   \<and> timers (snd (start_resume_models None s)) = timers s
   \<and> fst (start_resume_models (Some e) s) = Normal
   \<and> error (snd (start_resume_models (Some e) s))
       = Some (''Failed to start camera: '' @
           ''Failed to load face detection models. Please check the modelPath. Error: '' @
           error_toString e)
   \<and> \<not> isInitializing (snd (start_resume_models (Some e) s))
   \<and> timers (snd (start_resume_models (Some e) s)) = timers s
   \<and> detectionInterval (snd (start_resume_models (Some e) s)) = detectionInterval s
   \<and> requesting_camera (snd (start_resume_models (Some e) s)) = requesting_camera s
   \<and> fst (start_resume_camera (Inl e) s) = Normal
   \<and> error (snd (start_resume_camera (Inl e) s))
       = Some (''Failed to start camera: '' @ message e)
   \<and> \<not> isInitializing (snd (start_resume_camera (Inl e) s))
   \<and> timers (snd (start_resume_camera (Inl e) s)) = timers s
   \<and> detectionInterval (snd (start_resume_camera (Inl e) s)) = detectionInterval s
   \<and> stream (snd (start_resume_camera (Inl e) s)) = stream s
   \<and> (videoRef s = None \<longrightarrow>
        error (snd (start_resume_camera (Inr st) s))
          = Some (''Failed to start camera: '' @ null_write_message)
        \<and> \<not> isInitializing (snd (start_resume_camera (Inr st) s))
        \<and> timers (snd (start_resume_camera (Inr st) s)) = timers s
        \<and> detectionInterval (snd (start_resume_camera (Inr st) s)) = detectionInterval s)
   \<and> (videoRef s \<noteq> None \<longrightarrow>
        \<not> isInitializing (snd (start_resume_camera (Inr st) s))
        \<and> error (snd (start_resume_camera (Inr st) s)) = error s
        \<and> stream (snd (start_resume_camera (Inr st) s)) = Some st
        \<and> detectionInterval (snd (start_resume_camera (Inr st) s)) = Some (Suc (last_timer s))
        \<and> timers (snd (start_resume_camera (Inr st) s))
            = insert (Suc (last_timer s)) (timers s))
   \<and> timers (run opts [VideoRefSet (Some v), StartCalled, ModelsSettled (Some e)] init) = {}
   \<and> timers (run opts [VideoRefSet (Some v), StartCalled, ModelsSettled None,
                         CameraSettled (Inl e)] init) = {}"
proof -
  have starts: "fst (start s) = Await \<and> isInitializing (snd (start s))
      \<and> error (snd (start s)) = None \<and> timers (snd (start s)) = timers s"
    if "videoRef s \<noteq> None"
    using that by (auto simp: start_begins)
  have gone: "error (snd (start_resume_camera (Inr st) s))
          = Some (''Failed to start camera: '' @ null_write_message)
        \<and> \<not> isInitializing (snd (start_resume_camera (Inr st) s))
        \<and> timers (snd (start_resume_camera (Inr st) s)) = timers s
        \<and> detectionInterval (snd (start_resume_camera (Inr st) s)) = detectionInterval s"
    if "videoRef s = None"
    using that by (simp add: camera_without_video)
  have streaming: "\<not> isInitializing (snd (start_resume_camera (Inr st) s))
        \<and> error (snd (start_resume_camera (Inr st) s)) = error s
        \<and> stream (snd (start_resume_camera (Inr st) s)) = Some st
        \<and> detectionInterval (snd (start_resume_camera (Inr st) s)) = Some (Suc (last_timer s))
        \<and> timers (snd (start_resume_camera (Inr st) s))
            = insert (Suc (last_timer s)) (timers s)"
    if "videoRef s \<noteq> None"
    using that by (auto simp: camera_granted)
  have run1: "timers (run opts [VideoRefSet (Some v), StartCalled, ModelsSettled (Some e)] init)
      = {}"
    by (simp add: run_def start_begins models_failed init_def)
  have run2: "timers (run opts [VideoRefSet (Some v), StartCalled, ModelsSettled None,
                         CameraSettled (Inl e)] init) = {}"
    by (simp add: run_def start_begins models_loaded camera_denied init_def)
  show ?thesis
    by (intro conjI impI; (rule start_no_throw run1 run2)?)
       (simp_all add: models_failed models_loaded camera_denied starts gone streaming)
qed

theorem start_failure_witness:
  "videoRef (run demo_options [VideoRefSet (Some \<lparr>srcObject = None\<rparr>)] init) \<noteq> None
   \<and> isInitializing (run demo_options [VideoRefSet (Some \<lparr>srcObject = None\<rparr>), StartCalled] init)
   \<and> isInitializing (run demo_options
         [VideoRefSet (Some \<lparr>srcObject = None\<rparr>), StartCalled, ModelsSettled None] init)
   \<and> fst (start_resume_camera (Inl (JsError ''NotAllowedError'' ''Permission denied''))
         (run demo_options
           [VideoRefSet (Some \<lparr>srcObject = None\<rparr>), StartCalled, ModelsSettled None] init))
       = Normal
   \<and> error (snd (start_resume_camera (Inl (JsError ''NotAllowedError'' ''Permission denied''))
         (run demo_options
           [VideoRefSet (Some \<lparr>srcObject = None\<rparr>), StartCalled, ModelsSettled None] init)))
       = Some ''Failed to start camera: Permission denied''
   \<and> \<not> isInitializing
        (snd (start_resume_camera (Inl (JsError ''NotAllowedError'' ''Permission denied''))
         (run demo_options
           [VideoRefSet (Some \<lparr>srcObject = None\<rparr>), StartCalled, ModelsSettled None] init)))
   \<and> timers (snd (start_resume_camera (Inl (JsError ''NotAllowedError'' ''Permission denied''))
         (run demo_options
           [VideoRefSet (Some \<lparr>srcObject = None\<rparr>), StartCalled, ModelsSettled None] init)))
       = {}"
proof -
  let ?s = "run demo_options
           [VideoRefSet (Some \<lparr>srcObject = None\<rparr>), StartCalled, ModelsSettled None] init"
  have h1: "videoRef (run demo_options [VideoRefSet (Some \<lparr>srcObject = None\<rparr>)] init) \<noteq> None"
    and h2: "isInitializing
       (run demo_options [VideoRefSet (Some \<lparr>srcObject = None\<rparr>), StartCalled] init)"
    and h3: "isInitializing ?s" and h4: "timers ?s = {}"
    by code_simp+
  from start_failure [of ?s "JsError ''NotAllowedError'' ''Permission denied''" None
      "Inl (JsError ''NotAllowedError'' ''Permission denied'')"
      0 demo_options "\<lparr>srcObject = None\<rparr>"] h1 h2 h3 h4
  show ?thesis by simp
qed

end
